theory Spec2Isabelle
  imports Complex_Main
begin

section \<open>Order validation: data model\<close>

text \<open>
  The embedding follows \<^verbatim>\<open>src/tools/validation_tools.py\<close> (catalog tables and the three
  validation tools) and \<^verbatim>\<open>src/agents/order_validator.py\<close> (the workflow nodes, the
  routing functions, the graph and the entry point \<^verbatim>\<open>validate_order\<close>).

  Conventions of the embedding:
  \<^item> Amounts are Python floats in the source. Every finite float is a rational number, and
    the catalog's prices, limits and balances are small integers, so amounts are values of
    type \<open>rat\<close> with exact arithmetic; rounding of float operations is not modelled.
  \<^item> A dictionary with a fixed set of keys is a record. Where two dictionaries of the
    source share a key, the record fields carry a prefix.
  \<^item> Messages are f-strings in the source. A message is kept as its template together
    with the interpolated values (one constructor per template); two templates of the
    source with the same text are the same constructor. Rendering to text, including
    the \<^verbatim>\<open>:.2f\<close> formatting of amounts, is outside the model.
  \<^item> An exception is a value: fallible steps return \<open>exn + 'a\<close>, with \<open>Inl\<close> the
    raised exception.
\<close>

subsection \<open>Catalog records\<close>

record customer =
  cust_id :: string
  cust_name :: string
  cust_email :: string
  cust_status :: string
  credit_limit :: rat
  current_balance :: rat

record product =
  prod_id :: string
  prod_name :: string
  price :: rat
  stock :: int
  category :: string

subsection \<open>Order lines\<close>

text \<open>
  An order line is a dictionary read with \<^verbatim>\<open>item.get("product_id")\<close>,
  \<^verbatim>\<open>item.get("quantity", 0)\<close> and \<^verbatim>\<open>item.get("unit_price")\<close>: each key may be missing,
  which is \<open>None\<close> here.
\<close>

record order_line =
  product_id :: "string option"
  quantity :: "int option"
  unit_price :: "rat option"

subsection \<open>Exceptions and messages\<close>

datatype exn =
    NoneTypeHasNoAttributeGet
      \<comment> \<open>AttributeError of \<^verbatim>\<open>None.get(...)\<close>\<close>
  | Raised string
      \<comment> \<open>an \<^verbatim>\<open>Exception\<close> raised by a library call, with its \<^verbatim>\<open>str(e)\<close>\<close>

datatype reason =
    ProductNotFound "string option"
      \<comment> \<open>\<^verbatim>\<open>Producto {product_id} no existe en el catalogo\<close>\<close>
  | QuantityNotPositive
      \<comment> \<open>\<^verbatim>\<open>Cantidad debe ser mayor a 0\<close>\<close>
  | InsufficientStock int int
      \<comment> \<open>\<^verbatim>\<open>Stock insuficiente. Solicitado: {quantity}, Disponible: {available_stock}\<close>\<close>
  | PriceMismatch rat rat
      \<comment> \<open>\<^verbatim>\<open>Precio incorrecto. Proporcionado: ${provided_price:.2f}, Actual: ${actual_price:.2f}\<close>\<close>

datatype message =
    NoMessage
      \<comment> \<open>the empty string\<close>
  | OrderIdNotProvided
      \<comment> \<open>\<^verbatim>\<open>ID de orden no proporcionado\<close>\<close>
  | CustomerIdNotProvided
      \<comment> \<open>\<^verbatim>\<open>ID de cliente no proporcionado\<close> (parse step and customer tool)\<close>
  | NoItemsProvided
      \<comment> \<open>\<^verbatim>\<open>No se proporcionaron items en la orden\<close> (parse step and items tool)\<close>
  | StructureErrors "message list"
      \<comment> \<open>\<^verbatim>\<open>Errores en estructura de orden: {'; '.join(errors)}\<close>\<close>
  | OrderParsed
      \<comment> \<open>\<^verbatim>\<open>Orden parseada, iniciando validaciones\<close>\<close>
  | CustomerDoesNotExist string
      \<comment> \<open>\<^verbatim>\<open>Cliente {customer_id} no existe en el sistema\<close>\<close>
  | CustomerInactive string
      \<comment> \<open>\<^verbatim>\<open>Cliente {customer_id} existe pero esta inactivo\<close>\<close>
  | CustomerValidActive string
      \<comment> \<open>\<^verbatim>\<open>Cliente {customer_id} valido y activo\<close>\<close>
  | CreditCustomerNotFound string
      \<comment> \<open>\<^verbatim>\<open>Cliente {customer_id} no encontrado\<close>\<close>
  | CreditSufficient rat rat
      \<comment> \<open>\<^verbatim>\<open>Credito suficiente. Disponible: ${available_credit:.2f}, Requerido: ${order_amount:.2f}\<close>\<close>
  | CreditInsufficient rat rat rat
      \<comment> \<open>\<^verbatim>\<open>Credito insuficiente. Disponible: ${..}, Requerido: ${..}, Falta: ${deficit:.2f}\<close>\<close>
  | AllItemsValid nat rat
      \<comment> \<open>\<^verbatim>\<open>Todos los {len(validated_items)} items son validos. Total: ${total_amount:.2f}\<close>\<close>
  | ItemsValidationFailed nat nat
      \<comment> \<open>\<^verbatim>\<open>Validacion fallida: {len(invalid_items)} items invalidos de {len(items)} totales\<close>\<close>
  | ItemError "string option" reason
      \<comment> \<open>\<^verbatim>\<open>Item {invalid_item['product_id']}: {invalid_item['reason']}\<close>\<close>
  | CustomerToolError exn
      \<comment> \<open>\<^verbatim>\<open>Error al validar cliente: {str(e)}\<close>\<close>
  | ItemsToolError exn
      \<comment> \<open>\<^verbatim>\<open>Error al validar items: {str(e)}\<close>\<close>
  | CreditToolError exn
      \<comment> \<open>\<^verbatim>\<open>Error al verificar credito: {str(e)}\<close>\<close>
  | OrderApproved string rat
      \<comment> \<open>\<^verbatim>\<open>Orden {order_id} aprobada exitosamente. Total: ${total_amount:.2f}\<close>\<close>
  | OrderRejected string nat
      \<comment> \<open>\<^verbatim>\<open>Orden {order_id} rechazada. {error_count} error(es) encontrado(s).\<close>\<close>
  | CriticalError string exn
      \<comment> \<open>\<^verbatim>\<open>Error critico en validacion de orden {order_id}: {str(e)}\<close>\<close>

subsection \<open>Verdicts of the three tools\<close>

record customer_verdict =
  cv_valid :: bool
  cv_exists :: bool
  cv_active :: bool
  customer_data :: "customer option"
  cv_message :: message

record credit_verdict =
  has_credit :: bool
  cr_credit_limit :: rat
  cr_current_balance :: rat
  available_credit :: rat
  required_amount :: rat
  cr_message :: message

record validated_item =
  v_product_id :: "string option"
  v_product_name :: string
  v_quantity :: int
  v_unit_price :: rat
  item_total :: rat
  v_category :: string

text \<open>
  An invalid line is recorded with its product id, its quantity and its reason. The
  source adds \<^verbatim>\<open>available_stock\<close> to a stock failure and \<^verbatim>\<open>provided_price\<close>,
  \<^verbatim>\<open>actual_price\<close> to a price failure; these are the values carried by the reason.
\<close>

record invalid_item =
  inv_product_id :: "string option"
  inv_quantity :: int
  inv_reason :: reason

record items_verdict =
  iv_valid :: bool
  iv_total_amount :: rat
  validated_items :: "validated_item list"
  invalid_items :: "invalid_item list"
  iv_message :: message

section \<open>Catalog lookup\<close>

definition MOCK_CUSTOMERS :: "string \<rightharpoonup> customer" where
  "MOCK_CUSTOMERS = map_of
    [(''CUST001'', \<lparr>cust_id = ''CUST001'', cust_name = ''Acme Corporation'',
        cust_email = ''contact@acme.com'', cust_status = ''active'',
        credit_limit = 10000, current_balance = 2000\<rparr>),
     (''CUST002'', \<lparr>cust_id = ''CUST002'', cust_name = ''TechStart Inc'',
        cust_email = ''info@techstart.com'', cust_status = ''active'',
        credit_limit = 5000, current_balance = 4500\<rparr>),
     (''CUST003'', \<lparr>cust_id = ''CUST003'', cust_name = ''Global Solutions'',
        cust_email = ''sales@globalsolutions.com'', cust_status = ''inactive'',
        credit_limit = 15000, current_balance = 0\<rparr>),
     (''CUST004'', \<lparr>cust_id = ''CUST004'', cust_name = ''Innovation Labs'',
        cust_email = ''hello@innovationlabs.com'', cust_status = ''active'',
        credit_limit = 8000, current_balance = 1000\<rparr>),
     (''CUST005'', \<lparr>cust_id = ''CUST005'', cust_name = ''Enterprise Systems'',
        cust_email = ''contact@enterprise.com'', cust_status = ''active'',
        credit_limit = 20000, current_balance = 15000\<rparr>)]"

definition MOCK_PRODUCTS :: "string \<rightharpoonup> product" where
  "MOCK_PRODUCTS = map_of
    [(''PROD001'', \<lparr>prod_id = ''PROD001'', prod_name = ''Laptop Pro 15'',
        price = 1200, stock = 50, category = ''electronics''\<rparr>),
     (''PROD002'', \<lparr>prod_id = ''PROD002'', prod_name = ''Wireless Mouse'',
        price = 25, stock = 200, category = ''accessories''\<rparr>),
     (''PROD003'', \<lparr>prod_id = ''PROD003'', prod_name = ''USB-C Hub'',
        price = 45, stock = 100, category = ''accessories''\<rparr>),
     (''PROD004'', \<lparr>prod_id = ''PROD004'', prod_name = ''Monitor 27 inch'',
        price = 350, stock = 30, category = ''electronics''\<rparr>),
     (''PROD005'', \<lparr>prod_id = ''PROD005'', prod_name = ''Mechanical Keyboard'',
        price = 120, stock = 0, category = ''accessories''\<rparr>),
     (''PROD006'', \<lparr>prod_id = ''PROD006'', prod_name = ''Webcam HD'',
        price = 80, stock = 75, category = ''electronics''\<rparr>)]"

text \<open>
  \<^verbatim>\<open>MOCK_PRODUCTS.get(product_id)\<close> where \<^verbatim>\<open>product_id\<close> may be \<^verbatim>\<open>None\<close>: no product
  has the key \<^verbatim>\<open>None\<close>.
\<close>

definition get_product :: "string option \<Rightarrow> product option" where
  "get_product pid = (case pid of None \<Rightarrow> None | Some p \<Rightarrow> MOCK_PRODUCTS p)"

section \<open>Validation tools\<close>

definition validate_customer_exists :: "string \<Rightarrow> customer_verdict" where
  "validate_customer_exists customer_id =
     (if customer_id = [] then
        \<lparr>cv_valid = False, cv_exists = False, cv_active = False,
         customer_data = None, cv_message = CustomerIdNotProvided\<rparr>
      else case MOCK_CUSTOMERS customer_id of
        None \<Rightarrow>
          \<lparr>cv_valid = False, cv_exists = False, cv_active = False,
           customer_data = None, cv_message = CustomerDoesNotExist customer_id\<rparr>
      | Some customer \<Rightarrow>
          (let is_active = (cust_status customer = ''active'') in
           if \<not> is_active then
             \<lparr>cv_valid = False, cv_exists = True, cv_active = False,
              customer_data = Some customer, cv_message = CustomerInactive customer_id\<rparr>
           else
             \<lparr>cv_valid = True, cv_exists = True, cv_active = True,
              customer_data = Some customer, cv_message = CustomerValidActive customer_id\<rparr>))"

definition check_customer_credit :: "string \<Rightarrow> rat \<Rightarrow> credit_verdict" where
  "check_customer_credit customer_id order_amount =
     (case MOCK_CUSTOMERS customer_id of
        None \<Rightarrow>
          \<lparr>has_credit = False, cr_credit_limit = 0, cr_current_balance = 0,
           available_credit = 0, required_amount = order_amount,
           cr_message = CreditCustomerNotFound customer_id\<rparr>
      | Some customer \<Rightarrow>
          (let limit = credit_limit customer;
               balance = current_balance customer;
               available = limit - balance;
               has_sufficient_credit = (available \<ge> order_amount)
           in if has_sufficient_credit then
                \<lparr>has_credit = True, cr_credit_limit = limit, cr_current_balance = balance,
                 available_credit = available, required_amount = order_amount,
                 cr_message = CreditSufficient available order_amount\<rparr>
              else
                (let deficit = order_amount - available in
                 \<lparr>has_credit = False, cr_credit_limit = limit, cr_current_balance = balance,
                  available_credit = available, required_amount = order_amount,
                  cr_message = CreditInsufficient available order_amount deficit\<rparr>)))"

text \<open>
  The loop of \<^verbatim>\<open>validate_order_items\<close> over the lines, with its three accumulators
  \<^verbatim>\<open>validated_items\<close>, \<^verbatim>\<open>invalid_items\<close> and \<^verbatim>\<open>total_amount\<close>. Each \<^verbatim>\<open>continue\<close> of the
  source is a recursive call that leaves the other accumulators unchanged.
\<close>

fun items_loop ::
  "order_line list \<Rightarrow> validated_item list \<Rightarrow> invalid_item list \<Rightarrow> rat
     \<Rightarrow> validated_item list \<times> invalid_item list \<times> rat" where
  "items_loop [] validated invalid total_amount = (validated, invalid, total_amount)"
| "items_loop (item # rest) validated invalid total_amount =
     (let pid = product_id item;
          qty = (case quantity item of None \<Rightarrow> 0 | Some q \<Rightarrow> q);
          provided_price = unit_price item
      in case get_product pid of
        None \<Rightarrow>
          items_loop rest validated
            (invalid @ [\<lparr>inv_product_id = pid, inv_quantity = qty,
                          inv_reason = ProductNotFound pid\<rparr>])
            total_amount
      | Some prd \<Rightarrow>
          if qty \<le> 0 then
            items_loop rest validated
              (invalid @ [\<lparr>inv_product_id = pid, inv_quantity = qty,
                            inv_reason = QuantityNotPositive\<rparr>])
              total_amount
          else
            (let available_stock = stock prd in
             if qty > available_stock then
               items_loop rest validated
                 (invalid @ [\<lparr>inv_product_id = pid, inv_quantity = qty,
                               inv_reason = InsufficientStock qty available_stock\<rparr>])
                 total_amount
             else
               (let actual_price = price prd in
                if (case provided_price of None \<Rightarrow> False
                    | Some pp \<Rightarrow> \<bar>pp - actual_price\<bar> > 1 / 100) then
                  items_loop rest validated
                    (invalid @ [\<lparr>inv_product_id = pid, inv_quantity = qty,
                                  inv_reason = PriceMismatch (the provided_price) actual_price\<rparr>])
                    total_amount
                else
                  (let line_total = actual_price * of_int qty in
                   items_loop rest
                     (validated @ [\<lparr>v_product_id = pid, v_product_name = prod_name prd,
                                     v_quantity = qty, v_unit_price = actual_price,
                                     item_total = line_total, v_category = category prd\<rparr>])
                     invalid
                     (total_amount + line_total)))))"

definition validate_order_items :: "order_line list \<Rightarrow> items_verdict" where
  "validate_order_items items =
     (if items = [] then
        \<lparr>iv_valid = False, iv_total_amount = 0, validated_items = [],
         invalid_items = [], iv_message = NoItemsProvided\<rparr>
      else
        (case items_loop items [] [] 0 of
           (validated, invalid, total_amount) \<Rightarrow>
             (let is_valid = (length invalid = 0 \<and> length validated > 0);
                  msg = (if is_valid then AllItemsValid (length validated) total_amount
                         else ItemsValidationFailed (length invalid) (length items))
              in \<lparr>iv_valid = is_valid, iv_total_amount = total_amount,
                  validated_items = validated, invalid_items = invalid,
                  iv_message = msg\<rparr>)))"

section \<open>Workflow state\<close>

datatype status = Pending | Validating | Approved | Rejected | Error

text \<open>
  A verdict slot of the state holds either the dictionary a tool returned or the
  two-key dictionary \<^verbatim>\<open>{"valid": False, "message": error_msg}\<close> (for the credit slot
  \<^verbatim>\<open>{"has_credit": False, "message": error_msg}\<close>) that a node's exception handler stores.
\<close>

datatype customer_validation = CustomerResult customer_verdict | CustomerFailure message

datatype items_validation = ItemsResult items_verdict | ItemsFailure message

datatype credit_validation = CreditResult credit_verdict | CreditFailure message

text \<open>
  Reading a slot's dictionary: \<^verbatim>\<open>.get("valid", False)\<close>, \<^verbatim>\<open>.get("has_credit", False)\<close>
  and \<^verbatim>\<open>["message"]\<close>; both kinds of dictionary have these keys.
\<close>

fun customer_get_valid :: "customer_validation \<Rightarrow> bool" where
  "customer_get_valid (CustomerResult v) = cv_valid v"
| "customer_get_valid (CustomerFailure _) = False"

fun customer_get_message :: "customer_validation \<Rightarrow> message" where
  "customer_get_message (CustomerResult v) = cv_message v"
| "customer_get_message (CustomerFailure m) = m"

fun items_get_valid :: "items_validation \<Rightarrow> bool" where
  "items_get_valid (ItemsResult v) = iv_valid v"
| "items_get_valid (ItemsFailure _) = False"

fun credit_get_has_credit :: "credit_validation \<Rightarrow> bool" where
  "credit_get_has_credit (CreditResult v) = has_credit v"
| "credit_get_has_credit (CreditFailure _) = False"

record approved_summary =
  as_order_id :: string
  as_customer_id :: string
  as_total_amount :: rat
  items_count :: nat
  as_approved :: bool

record rejected_summary =
  rs_order_id :: string
  rs_customer_id :: string
  rs_total_amount :: rat
  rs_approved :: bool
  error_count :: nat

record approved_details =
  ad_customer :: "customer_validation option"
  ad_items :: "items_validation option"
  ad_credit :: "credit_validation option"
  ad_summary :: approved_summary

record rejected_details =
  rd_customer :: "customer_validation option"
  rd_items :: "items_validation option"
  rd_credit :: "credit_validation option"
  rd_errors :: "message list"
  rd_warnings :: "message list"
  rd_summary :: rejected_summary

datatype validation_details =
    NoDetails
      \<comment> \<open>the empty dictionary\<close>
  | ApprovedDetails approved_details
  | RejectedDetails rejected_details

record OrderState =
  order_id :: string
  customer_id :: string
  items :: "order_line list"
  customer_validation :: "customer_validation option"
  items_validation :: "items_validation option"
  credit_validation :: "credit_validation option"
  status :: status
  errors :: "message list"
  warnings :: "message list"
  total_amount :: rat
  approved :: bool
  message :: message
  validation_details :: validation_details

text \<open>The dictionary returned by \<^verbatim>\<open>validate_order\<close>.\<close>

record final_result =
  result_status :: status
  result_approved :: bool
  result_message :: message
  result_total_amount :: rat
  result_errors :: "message list"
  result_warnings :: "message list"
  result_validation_details :: validation_details

subsection \<open>Library calls that may raise\<close>

text \<open>
  The tools are pure and total on well-typed arguments, yet every node calls its tool
  through the library's \<^verbatim>\<open>invoke\<close> inside \<^verbatim>\<open>try\<close>, and \<^verbatim>\<open>validate_order\<close> builds and
  runs the graph inside \<^verbatim>\<open>try\<close>. Whether such a library call raises is a parameter of
  the model: a fault environment gives, for each call site, the exception raised there,
  or \<open>None\<close> when the call goes through.
\<close>

datatype call_site = CustomerToolInvoke | ItemsToolInvoke | CreditToolInvoke | GraphInvoke

type_synonym faults = "call_site \<Rightarrow> exn option"

definition no_faults :: faults where
  "no_faults = (\<lambda>_. None)"

definition invoke :: "faults \<Rightarrow> call_site \<Rightarrow> ('a \<Rightarrow> 'b) \<Rightarrow> 'a \<Rightarrow> exn + 'b" where
  "invoke ft site tool args = (case ft site of Some e \<Rightarrow> Inl e | None \<Rightarrow> Inr (tool args))"

section \<open>Workflow nodes\<close>

text \<open>
  \<^verbatim>\<open>parse_order\<close>. The items of the model are a list, so of the three branches on
  \<^verbatim>\<open>state.get("items")\<close> only the first can be taken: \<^verbatim>\<open>not items\<close> holds exactly for the
  empty list, the \<^verbatim>\<open>isinstance\<close> test never fails, and the \<^verbatim>\<open>len(...) == 0\<close> branch is
  behind \<^verbatim>\<open>not items\<close>.
\<close>

definition parse_order :: "OrderState \<Rightarrow> OrderState" where
  "parse_order state =
     (let errs0 = [];
          errs1 = (if order_id state = [] then errs0 @ [OrderIdNotProvided] else errs0);
          errs2 = (if customer_id state = [] then errs1 @ [CustomerIdNotProvided] else errs1);
          errs3 = (if items state = [] then errs2 @ [NoItemsProvided] else errs2)
      in state\<lparr>errors := errs3,
               warnings := [],
               status := (if errs3 \<noteq> [] then Error else Validating),
               approved := False,
               total_amount := 0,
               validation_details := NoDetails,
               message := (if errs3 \<noteq> [] then StructureErrors errs3 else OrderParsed)\<rparr>)"

definition validate_customer_node :: "faults \<Rightarrow> OrderState \<Rightarrow> OrderState" where
  "validate_customer_node ft state =
     (case invoke ft CustomerToolInvoke validate_customer_exists (customer_id state) of
        Inr result \<Rightarrow>
          (let state1 = state\<lparr>customer_validation := Some (CustomerResult result)\<rparr> in
           if \<not> cv_valid result
           then state1\<lparr>errors := errors state1 @ [cv_message result]\<rparr>
           else state1)
      | Inl e \<Rightarrow>
          (let error_msg = CustomerToolError e in
           state\<lparr>errors := errors state @ [error_msg],
                 customer_validation := Some (CustomerFailure error_msg)\<rparr>))"

definition validate_items_node :: "faults \<Rightarrow> OrderState \<Rightarrow> OrderState" where
  "validate_items_node ft state =
     (case invoke ft ItemsToolInvoke validate_order_items (items state) of
        Inr result \<Rightarrow>
          (let state1 = state\<lparr>items_validation := Some (ItemsResult result),
                              total_amount := iv_total_amount result\<rparr> in
           if \<not> iv_valid result
           then state1\<lparr>errors := (errors state1 @ [iv_message result])
                         @ map (\<lambda>invalid. ItemError (inv_product_id invalid) (inv_reason invalid))
                               (invalid_items result)\<rparr>
           else state1)
      | Inl e \<Rightarrow>
          (let error_msg = ItemsToolError e in
           state\<lparr>errors := errors state @ [error_msg],
                 items_validation := Some (ItemsFailure error_msg)\<rparr>))"

definition check_credit_node :: "faults \<Rightarrow> OrderState \<Rightarrow> OrderState" where
  "check_credit_node ft state =
     (case invoke ft CreditToolInvoke
             (\<lambda>(cid, amount). check_customer_credit cid amount)
             (customer_id state, total_amount state) of
        Inr result \<Rightarrow>
          (let state1 = state\<lparr>credit_validation := Some (CreditResult result)\<rparr> in
           if \<not> has_credit result
           then state1\<lparr>errors := errors state1 @ [cr_message result]\<rparr>
           else state1)
      | Inl e \<Rightarrow>
          (let error_msg = CreditToolError e in
           state\<lparr>errors := errors state @ [error_msg],
                 credit_validation := Some (CreditFailure error_msg)\<rparr>))"

text \<open>
  \<^verbatim>\<open>process_order_node\<close> counts the validated lines with
  \<^verbatim>\<open>state.get("items_validation", {}).get("validated_items", [])\<close>. The key is always
  present in the state, so an unset slot gives \<^verbatim>\<open>None\<close>, and \<^verbatim>\<open>None.get\<close> raises.
\<close>

definition process_order_node :: "OrderState \<Rightarrow> exn + OrderState" where
  "process_order_node state =
     (let state1 = state\<lparr>status := Approved, approved := True,
                          message := OrderApproved (order_id state) (total_amount state)\<rparr>
      in case (case items_validation state1 of
                 None \<Rightarrow> Inl NoneTypeHasNoAttributeGet
               | Some (ItemsResult v) \<Rightarrow> Inr (length (validated_items v))
               | Some (ItemsFailure _) \<Rightarrow> Inr 0) of
           Inl e \<Rightarrow> Inl e
         | Inr n \<Rightarrow>
             Inr (state1\<lparr>validation_details := ApprovedDetails
                    \<lparr>ad_customer = customer_validation state1,
                     ad_items = items_validation state1,
                     ad_credit = credit_validation state1,
                     ad_summary = \<lparr>as_order_id = order_id state1,
                                   as_customer_id = customer_id state1,
                                   as_total_amount = total_amount state1,
                                   items_count = n,
                                   as_approved = True\<rparr>\<rparr>\<rparr>))"

definition error_handler_node :: "OrderState \<Rightarrow> OrderState" where
  "error_handler_node state =
     (let state1 = state\<lparr>status := Rejected, approved := False\<rparr>;
          err_count = length (errors state1);
          state2 = state1\<lparr>message := OrderRejected (order_id state1) err_count\<rparr>
      in state2\<lparr>validation_details := RejectedDetails
           \<lparr>rd_customer = customer_validation state2,
            rd_items = items_validation state2,
            rd_credit = credit_validation state2,
            rd_errors = errors state2,
            rd_warnings = warnings state2,
            rd_summary = \<lparr>rs_order_id = order_id state2,
                          rs_customer_id = customer_id state2,
                          rs_total_amount = total_amount state2,
                          rs_approved = False,
                          error_count = err_count\<rparr>\<rparr>\<rparr>)"

section \<open>Routing and the graph\<close>

datatype node =
  ParseOrder | ValidateCustomer | ValidateItems | CheckCredit | ProcessOrder | ErrorHandler

text \<open>
  The routing functions read a verdict slot with \<^verbatim>\<open>state.get(slot, {}).get(key, False)\<close>;
  on an unset slot (\<^verbatim>\<open>None\<close>) the second \<^verbatim>\<open>get\<close> raises.
\<close>

definition should_continue_after_customer :: "OrderState \<Rightarrow> exn + node" where
  "should_continue_after_customer state =
     (case customer_validation state of
        None \<Rightarrow> Inl NoneTypeHasNoAttributeGet
      | Some cv \<Rightarrow>
          (let customer_valid = customer_get_valid cv
           in if customer_valid then Inr ValidateItems else Inr ErrorHandler))"

definition should_continue_after_items :: "OrderState \<Rightarrow> exn + node" where
  "should_continue_after_items state =
     (case items_validation state of
        None \<Rightarrow> Inl NoneTypeHasNoAttributeGet
      | Some iv \<Rightarrow>
          (let items_valid = items_get_valid iv
           in if items_valid then Inr CheckCredit else Inr ErrorHandler))"

definition should_continue_after_credit :: "OrderState \<Rightarrow> exn + node" where
  "should_continue_after_credit state =
     (case credit_validation state of
        None \<Rightarrow> Inl NoneTypeHasNoAttributeGet
      | Some cr \<Rightarrow>
          (let credit_ok = credit_get_has_credit cr
           in if credit_ok then Inr ProcessOrder else Inr ErrorHandler))"

text \<open>
  \<^verbatim>\<open>create_order_validation_graph\<close> registers the six nodes, the entry point
  \<^verbatim>\<open>parse_order\<close>, four conditional edges and the two edges to \<^verbatim>\<open>END\<close>. The node table
  is \<open>run_node\<close>, the edge table is \<open>next_node\<close> (\<open>None\<close> is \<^verbatim>\<open>END\<close>).
\<close>

fun run_node :: "faults \<Rightarrow> node \<Rightarrow> OrderState \<Rightarrow> exn + OrderState" where
  "run_node ft ParseOrder state = Inr (parse_order state)"
| "run_node ft ValidateCustomer state = Inr (validate_customer_node ft state)"
| "run_node ft ValidateItems state = Inr (validate_items_node ft state)"
| "run_node ft CheckCredit state = Inr (check_credit_node ft state)"
| "run_node ft ProcessOrder state = process_order_node state"
| "run_node ft ErrorHandler state = Inr (error_handler_node state)"

fun next_node :: "node \<Rightarrow> OrderState \<Rightarrow> exn + node option" where
  "next_node ParseOrder state =
     Inr (Some (if status state = Validating then ValidateCustomer else ErrorHandler))"
| "next_node ValidateCustomer state = map_sum id Some (should_continue_after_customer state)"
| "next_node ValidateItems state = map_sum id Some (should_continue_after_items state)"
| "next_node CheckCredit state = map_sum id Some (should_continue_after_credit state)"
| "next_node ProcessOrder state = Inr None"
| "next_node ErrorHandler state = Inr None"

fun node_rank :: "node \<Rightarrow> nat" where
  "node_rank ParseOrder = 0"
| "node_rank ValidateCustomer = 1"
| "node_rank ValidateItems = 2"
| "node_rank CheckCredit = 3"
| "node_rank ProcessOrder = 4"
| "node_rank ErrorHandler = 5"

text \<open>
  Running the compiled graph from a node: run the node, follow its edge, and repeat
  until \<^verbatim>\<open>END\<close>. Besides the final state the run returns the nodes it executed, in
  order; this trace is instrumentation of the model. An exception raised by a node or
  by a routing function ends the run.
\<close>

function graph_run ::
  "faults \<Rightarrow> node \<Rightarrow> OrderState \<Rightarrow> node list \<Rightarrow> exn + (OrderState \<times> node list)" where
  "graph_run ft n state trace =
     (case run_node ft n state of
        Inl e \<Rightarrow> Inl e
      | Inr state' \<Rightarrow>
          (case next_node n state' of
             Inl e \<Rightarrow> Inl e
           | Inr None \<Rightarrow> Inr (state', trace @ [n])
           | Inr (Some n') \<Rightarrow> graph_run ft n' state' (trace @ [n])))"
  by pat_completeness auto
termination
proof (relation "measure (\<lambda>(ft, n, state, trace). 6 - node_rank n)")
  show "wf (measure (\<lambda>(ft, n, state, trace). 6 - node_rank n))"
    by simp
next
  fix ft :: faults and n :: node and state :: OrderState and trace :: "node list"
    and state' :: OrderState and nxt :: "node option" and n' :: node
  assume "next_node n state' = Inr nxt" and "nxt = Some n'"
  then have "node_rank n < node_rank n'"
    by (cases n)
       (auto simp: should_continue_after_customer_def should_continue_after_items_def
          should_continue_after_credit_def Let_def
          split: option.splits if_splits)
  moreover have "node_rank n' < 6"
    by (cases n') simp_all
  ultimately show "((ft, n', state', trace @ [n]), (ft, n, state, trace))
      \<in> measure (\<lambda>(ft, n, state, trace). 6 - node_rank n)"
    by simp
qed

declare graph_run.simps [simp del]

text \<open>
  \<^verbatim>\<open>app = create_order_validation_graph(); app.invoke(initial_state)\<close>: the library may
  raise (site \<open>GraphInvoke\<close>); otherwise the graph runs from its entry point.
\<close>

definition app_invoke :: "faults \<Rightarrow> OrderState \<Rightarrow> exn + (OrderState \<times> node list)" where
  "app_invoke ft initial =
     (case ft GraphInvoke of
        Some e \<Rightarrow> Inl e
      | None \<Rightarrow> graph_run ft ParseOrder initial [])"

section \<open>Entry point\<close>

definition initial_state :: "string \<Rightarrow> string \<Rightarrow> order_line list \<Rightarrow> OrderState" where
  "initial_state oid cid lines =
     \<lparr>order_id = oid, customer_id = cid, items = lines,
      customer_validation = None, items_validation = None, credit_validation = None,
      status = Pending, errors = [], warnings = [],
      total_amount = 0, approved = False, message = NoMessage,
      validation_details = NoDetails\<rparr>"

definition validate_order ::
  "faults \<Rightarrow> string \<Rightarrow> string \<Rightarrow> order_line list \<Rightarrow> final_result" where
  "validate_order ft oid cid lines =
     (case app_invoke ft (initial_state oid cid lines) of
        Inr (final_state, trace) \<Rightarrow>
          \<lparr>result_status = status final_state,
           result_approved = approved final_state,
           result_message = message final_state,
           result_total_amount = total_amount final_state,
           result_errors = errors final_state,
           result_warnings = warnings final_state,
           result_validation_details = validation_details final_state\<rparr>
      | Inl e \<Rightarrow>
          (let error_msg = CriticalError oid e in
           \<lparr>result_status = Error,
            result_approved = False,
            result_message = error_msg,
            result_total_amount = 0,
            result_errors = [error_msg],
            result_warnings = [],
            result_validation_details = NoDetails\<rparr>))"

section \<open>Intermediate states and branch conditions of a run\<close>

text \<open>
  The states a run from \<open>initial_state\<close> passes through, named after the node that
  produced them, and the conditions under which the routing functions continue.
\<close>

definition after_parse :: "string \<Rightarrow> string \<Rightarrow> order_line list \<Rightarrow> OrderState" where
  "after_parse oid cid ls = parse_order (initial_state oid cid ls)"

definition after_customer :: "faults \<Rightarrow> string \<Rightarrow> string \<Rightarrow> order_line list \<Rightarrow> OrderState" where
  "after_customer ft oid cid ls = validate_customer_node ft (after_parse oid cid ls)"

definition after_items :: "faults \<Rightarrow> string \<Rightarrow> string \<Rightarrow> order_line list \<Rightarrow> OrderState" where
  "after_items ft oid cid ls = validate_items_node ft (after_customer ft oid cid ls)"

definition after_credit :: "faults \<Rightarrow> string \<Rightarrow> string \<Rightarrow> order_line list \<Rightarrow> OrderState" where
  "after_credit ft oid cid ls = check_credit_node ft (after_items ft oid cid ls)"

definition parse_ok :: "string \<Rightarrow> string \<Rightarrow> order_line list \<Rightarrow> bool" where
  "parse_ok oid cid ls = (oid \<noteq> [] \<and> cid \<noteq> [] \<and> ls \<noteq> [])"

definition customer_ok :: "faults \<Rightarrow> string \<Rightarrow> bool" where
  "customer_ok ft cid = (ft CustomerToolInvoke = None \<and> cv_valid (validate_customer_exists cid))"

definition items_ok :: "faults \<Rightarrow> order_line list \<Rightarrow> bool" where
  "items_ok ft ls = (ft ItemsToolInvoke = None \<and> iv_valid (validate_order_items ls))"

definition credit_ok :: "faults \<Rightarrow> string \<Rightarrow> order_line list \<Rightarrow> bool" where
  "credit_ok ft cid ls = (ft CreditToolInvoke = None \<and>
     has_credit (check_customer_credit cid (iv_total_amount (validate_order_items ls))))"

section \<open>The per-line rules as the specification states them\<close>

text \<open>
  The specification gives the item check as four rules applied to each line on its own,
  in this order: the product exists in the catalog; the quantity is greater than 0; the
  quantity is at most the product's stock; a supplied unit price differs from the catalog
  price by at most 0.01. The first rule that fails gives the reason. \<open>check_line\<close> is
  this reading, written without accumulators; \<open>classify_line\<close> builds the record the
  line is stored as.
\<close>

definition requested_quantity :: "order_line \<Rightarrow> int" where
  "requested_quantity l = (case quantity l of None \<Rightarrow> 0 | Some q \<Rightarrow> q)"

definition check_line :: "order_line \<Rightarrow> reason + product" where
  "check_line l =
     (case get_product (product_id l) of
        None \<Rightarrow> Inl (ProductNotFound (product_id l))
      | Some p \<Rightarrow>
          if \<not> requested_quantity l > 0 then Inl QuantityNotPositive
          else if \<not> requested_quantity l \<le> stock p
            then Inl (InsufficientStock (requested_quantity l) (stock p))
          else (case unit_price l of
                  None \<Rightarrow> Inr p
                | Some asserted \<Rightarrow>
                    if \<bar>asserted - price p\<bar> > 1 / 100
                    then Inl (PriceMismatch asserted (price p))
                    else Inr p))"

definition classify_line :: "order_line \<Rightarrow> invalid_item + validated_item" where
  "classify_line l =
     (case check_line l of
        Inl r \<Rightarrow> Inl \<lparr>inv_product_id = product_id l,
                       inv_quantity = requested_quantity l, inv_reason = r\<rparr>
      | Inr p \<Rightarrow> Inr \<lparr>v_product_id = product_id l, v_product_name = prod_name p,
                       v_quantity = requested_quantity l, v_unit_price = price p,
                       item_total = price p * of_int (requested_quantity l),
                       v_category = category p\<rparr>)"

definition validated_lines :: "order_line list \<Rightarrow> validated_item list" where
  "validated_lines ls = [v. Inr v \<leftarrow> map classify_line ls]"

definition invalid_lines :: "order_line list \<Rightarrow> invalid_item list" where
  "invalid_lines ls = [i. Inl i \<leftarrow> map classify_line ls]"

text \<open>
  What a line contributes at catalog price, whether a line's asserted price is within
  the tolerance, the four rules as one predicate of a single line, and the quantity a
  list of lines requests of one product in total.
\<close>

definition catalog_line_total :: "order_line \<Rightarrow> rat" where
  "catalog_line_total l =
     (case get_product (product_id l) of
        None \<Rightarrow> 0
      | Some p \<Rightarrow> price p * of_int (requested_quantity l))"

definition asserted_price_within_tolerance :: "order_line \<Rightarrow> bool" where
  "asserted_price_within_tolerance l =
     (case unit_price l of
        None \<Rightarrow> True
      | Some asserted \<Rightarrow>
          (case get_product (product_id l) of
             None \<Rightarrow> True
           | Some p \<Rightarrow> \<bar>asserted - price p\<bar> \<le> 1 / 100))"

definition line_passes_alone :: "order_line \<Rightarrow> bool" where
  "line_passes_alone l =
     (case get_product (product_id l) of
        None \<Rightarrow> False
      | Some p \<Rightarrow>
          0 < requested_quantity l \<and> requested_quantity l \<le> stock p \<and>
          (case unit_price l of
             None \<Rightarrow> True
           | Some asserted \<Rightarrow> \<bar>asserted - price p\<bar> \<le> 1 / 100))"

definition combined_quantity :: "string option \<Rightarrow> order_line list \<Rightarrow> int" where
  "combined_quantity pid ls = (\<Sum>l\<leftarrow>filter (\<lambda>l. product_id l = pid) ls. requested_quantity l)"

section \<open>Properties of the item check\<close>

lemma validated_lines_simps:
  "validated_lines [] = []"
  "validated_lines (l # ls) =
     (case classify_line l of Inl _ \<Rightarrow> validated_lines ls | Inr v \<Rightarrow> v # validated_lines ls)"
  by (simp_all add: validated_lines_def split: sum.splits)

lemma invalid_lines_simps:
  "invalid_lines [] = []"
  "invalid_lines (l # ls) =
     (case classify_line l of Inl i \<Rightarrow> i # invalid_lines ls | Inr _ \<Rightarrow> invalid_lines ls)"
  by (simp_all add: invalid_lines_def split: sum.splits)

lemma items_loop_refines:
  "items_loop ls vs ivs t =
     (vs @ validated_lines ls, ivs @ invalid_lines ls,
      t + sum_list (map item_total (validated_lines ls)))"
proof (induction ls arbitrary: vs ivs t)
  case Nil
  show ?case by (simp add: validated_lines_simps invalid_lines_simps)
next
  case (Cons l ls)
  show ?case
    by (simp add: Cons.IH validated_lines_simps invalid_lines_simps classify_line_def
        check_line_def requested_quantity_def Let_def not_less not_le
        split: option.splits)
qed

lemma validate_order_items_refines:
  "validated_items (validate_order_items ls) = validated_lines ls"
  "invalid_items (validate_order_items ls) = invalid_lines ls"
  "iv_total_amount (validate_order_items ls) = sum_list (map item_total (validated_lines ls))"
  "iv_valid (validate_order_items ls) = (invalid_lines ls = [] \<and> validated_lines ls \<noteq> [])"
  by (simp_all add: validate_order_items_def items_loop_refines Let_def
      validated_lines_simps invalid_lines_simps)

lemma length_classified:
  "length (validated_lines ls) + length (invalid_lines ls) = length ls"
  by (induction ls) (simp_all add: validated_lines_simps invalid_lines_simps split: sum.splits)

lemma check_line_passes: "(\<exists>p. check_line l = Inr p) = line_passes_alone l"
  by (auto simp: check_line_def line_passes_alone_def split: option.splits if_splits)

lemma classify_line_Inr: "(\<exists>v. classify_line l = Inr v) = line_passes_alone l"
  by (auto simp: classify_line_def check_line_passes [symmetric] split: sum.splits)

lemma invalid_lines_Nil: "(invalid_lines ls = []) = (\<forall>l\<in>set ls. line_passes_alone l)"
  by (induction ls)
     (auto simp: invalid_lines_simps classify_line_Inr [symmetric] split: sum.splits)

lemma validated_lines_Nil: "(validated_lines ls = []) = (\<forall>l\<in>set ls. \<not> line_passes_alone l)"
  by (induction ls)
     (auto simp: validated_lines_simps classify_line_Inr [symmetric] split: sum.splits)

lemma item_total_passing:
  "line_passes_alone l \<Longrightarrow> classify_line l = Inr v \<Longrightarrow> item_total v = catalog_line_total l"
  by (auto simp: classify_line_def check_line_def catalog_line_total_def
      split: option.splits if_splits sum.splits)

lemma total_all_passing:
  "\<forall>l\<in>set ls. line_passes_alone l \<Longrightarrow>
     sum_list (map item_total (validated_lines ls)) = (\<Sum>l\<leftarrow>ls. catalog_line_total l)"
  by (induction ls)
     (auto simp: validated_lines_simps item_total_passing classify_line_Inr [symmetric]
        split: sum.splits)

lemma catalog_line_total_cong:
  "product_id l' = product_id l \<Longrightarrow> quantity l' = quantity l \<Longrightarrow>
     catalog_line_total l' = catalog_line_total l"
  by (simp add: catalog_line_total_def requested_quantity_def split: option.splits)

lemma line_passes_alone_reprice:
  "product_id l' = product_id l \<Longrightarrow> quantity l' = quantity l \<Longrightarrow>
     line_passes_alone l \<Longrightarrow> asserted_price_within_tolerance l' \<Longrightarrow> line_passes_alone l'"
  by (auto simp: line_passes_alone_def asserted_price_within_tolerance_def
      requested_quantity_def split: option.splits)

lemma repriced_lines:
  "map product_id ls' = map product_id ls \<Longrightarrow> map quantity ls' = map quantity ls \<Longrightarrow>
   \<forall>l\<in>set ls. line_passes_alone l \<Longrightarrow> \<forall>l'\<in>set ls'. asserted_price_within_tolerance l' \<Longrightarrow>
   (\<forall>l'\<in>set ls'. line_passes_alone l') \<and>
   (\<Sum>l\<leftarrow>ls'. catalog_line_total l) = (\<Sum>l\<leftarrow>ls. catalog_line_total l)"
proof (induction ls arbitrary: ls')
  case Nil
  then show ?case by simp
next
  case (Cons l ls)
  from Cons.prems(1) obtain l' rest where ls': "ls' = l' # rest"
    by (cases ls') auto
  with Cons.prems have heads: "product_id l' = product_id l" "quantity l' = quantity l"
    and tails: "map product_id rest = map product_id ls" "map quantity rest = map quantity ls"
    by simp_all
  from Cons.prems ls' have "line_passes_alone l" "asserted_price_within_tolerance l'"
    by simp_all
  with heads have l'_ok: "line_passes_alone l'"
    by (rule line_passes_alone_reprice)
  from Cons.prems ls' have "\<forall>l\<in>set ls. line_passes_alone l"
    "\<forall>l'\<in>set rest. asserted_price_within_tolerance l'"
    by simp_all
  with tails have "(\<forall>l'\<in>set rest. line_passes_alone l') \<and>
      (\<Sum>l\<leftarrow>rest. catalog_line_total l) = (\<Sum>l\<leftarrow>ls. catalog_line_total l)"
    by (rule Cons.IH)
  with l'_ok heads show ?case
    by (simp add: ls' catalog_line_total_cong [of l' l])
qed

section \<open>Claims about the item check\<close>

text \<open>
  C3. For every item list, the verdict's \<open>valid\<close> flag is true exactly when the
  invalid-items sequence is empty and the validated-items sequence is non-empty. In
  particular the empty list is not valid, and neither is a list all of whose lines are
  rejected (the invalid-items sequence is as long as the input).
\<close>

theorem items_verdict_valid_iff:
  "iv_valid (validate_order_items ls) =
     (invalid_items (validate_order_items ls) = [] \<and>
      validated_items (validate_order_items ls) \<noteq> [])
   \<and> \<not> iv_valid (validate_order_items [])
   \<and> (length (invalid_items (validate_order_items ls)) = length ls
        \<longrightarrow> \<not> iv_valid (validate_order_items ls))"
proof -
  have "length (invalid_lines ls) = length ls \<Longrightarrow> validated_lines ls = []"
    using length_classified [of ls] by simp
  then show ?thesis
    by (auto simp: validate_order_items_refines validated_lines_simps)
qed

theorem items_verdict_valid_iff_witness:
  "length (invalid_items (validate_order_items
      [\<lparr>product_id = Some ''PROD999'', quantity = Some 1, unit_price = Some 100\<rparr>,
       \<lparr>product_id = Some ''PROD005'', quantity = Some 10, unit_price = Some 120\<rparr>]))
    = length [\<lparr>product_id = Some ''PROD999'', quantity = Some 1, unit_price = Some (100::rat)\<rparr>,
       \<lparr>product_id = Some ''PROD005'', quantity = Some 10, unit_price = Some 120\<rparr>]
   \<and> \<not> iv_valid (validate_order_items
      [\<lparr>product_id = Some ''PROD999'', quantity = Some 1, unit_price = Some 100\<rparr>,
       \<lparr>product_id = Some ''PROD005'', quantity = Some 10, unit_price = Some 120\<rparr>])"
  using items_verdict_valid_iff [of
      "[\<lparr>product_id = Some ''PROD999'', quantity = Some 1, unit_price = Some 100\<rparr>,
       \<lparr>product_id = Some ''PROD005'', quantity = Some 10, unit_price = Some 120\<rparr>]"]
  by (simp add: validate_order_items_def get_product_def MOCK_PRODUCTS_def Let_def)

text \<open>
  C4. When every line of an item list passes validation (no invalid line is recorded),
  the verdict's total is the sum over the lines of catalog price times requested
  quantity. The asserted unit price does not enter the total: a second list with the
  same product ids and quantities, whose asserted prices are all absent or within 0.01
  of the catalog price, passes as well and has the same total.
\<close>

theorem total_amount_from_catalog:
  assumes "invalid_items (validate_order_items ls) = []"
  shows "iv_total_amount (validate_order_items ls) = (\<Sum>l\<leftarrow>ls. catalog_line_total l)
    \<and> (\<forall>ls'. map product_id ls' = map product_id ls \<and> map quantity ls' = map quantity ls \<and>
          (\<forall>l'\<in>set ls'. asserted_price_within_tolerance l')
        \<longrightarrow> invalid_items (validate_order_items ls') = [] \<and>
            iv_total_amount (validate_order_items ls') =
              iv_total_amount (validate_order_items ls))"
proof -
  from assms have ok: "\<forall>l\<in>set ls. line_passes_alone l"
    by (simp add: validate_order_items_refines invalid_lines_Nil)
  then have total: "iv_total_amount (validate_order_items ls) = (\<Sum>l\<leftarrow>ls. catalog_line_total l)"
    by (simp add: validate_order_items_refines total_all_passing)
  have "invalid_items (validate_order_items ls') = [] \<and>
        iv_total_amount (validate_order_items ls') = iv_total_amount (validate_order_items ls)"
    if same: "map product_id ls' = map product_id ls" "map quantity ls' = map quantity ls"
      and tol: "\<forall>l'\<in>set ls'. asserted_price_within_tolerance l'" for ls'
  proof -
    from same ok tol have *: "(\<forall>l'\<in>set ls'. line_passes_alone l') \<and>
        (\<Sum>l\<leftarrow>ls'. catalog_line_total l) = (\<Sum>l\<leftarrow>ls. catalog_line_total l)"
      by (rule repriced_lines)
    then show ?thesis
      by (simp add: validate_order_items_refines invalid_lines_Nil total_all_passing
          total [unfolded validate_order_items_refines])
  qed
  with total show ?thesis by blast
qed

theorem total_amount_from_catalog_witness:
  "invalid_items (validate_order_items
      [\<lparr>product_id = Some ''PROD001'', quantity = Some 2, unit_price = Some 1200\<rparr>,
       \<lparr>product_id = Some ''PROD002'', quantity = Some 5, unit_price = Some 25\<rparr>]) = []
   \<and> iv_total_amount (validate_order_items
      [\<lparr>product_id = Some ''PROD001'', quantity = Some 2, unit_price = Some 1200\<rparr>,
       \<lparr>product_id = Some ''PROD002'', quantity = Some 5, unit_price = Some 25\<rparr>]) = 2525
   \<and> iv_total_amount (validate_order_items
      [\<lparr>product_id = Some ''PROD001'', quantity = Some 2, unit_price = Some (240001 / 200)\<rparr>,
       \<lparr>product_id = Some ''PROD002'', quantity = Some 5, unit_price = None\<rparr>]) = 2525"
proof -
  let ?ls = "[\<lparr>product_id = Some ''PROD001'', quantity = Some 2, unit_price = Some (1200::rat)\<rparr>,
       \<lparr>product_id = Some ''PROD002'', quantity = Some 5, unit_price = Some 25\<rparr>]"
  let ?ls' = "[\<lparr>product_id = Some ''PROD001'', quantity = Some 2,
         unit_price = Some (240001 / 200 :: rat)\<rparr>,
       \<lparr>product_id = Some ''PROD002'', quantity = Some 5, unit_price = None\<rparr>]"
  have h: "invalid_items (validate_order_items ?ls) = []"
    by (simp add: validate_order_items_def get_product_def MOCK_PRODUCTS_def Let_def)
  note t = total_amount_from_catalog [OF h]
  from t have total: "iv_total_amount (validate_order_items ?ls) = 2525"
    by (simp add: catalog_line_total_def requested_quantity_def get_product_def
        MOCK_PRODUCTS_def)
  have tol: "\<forall>l'\<in>set ?ls'. asserted_price_within_tolerance l'"
    by (simp add: asserted_price_within_tolerance_def get_product_def MOCK_PRODUCTS_def)
  from t have "map product_id ?ls' = map product_id ?ls \<and> map quantity ?ls' = map quantity ?ls \<and>
          (\<forall>l'\<in>set ?ls'. asserted_price_within_tolerance l')
        \<longrightarrow> iv_total_amount (validate_order_items ?ls') =
              iv_total_amount (validate_order_items ?ls)"
    by blast
  with tol have "iv_total_amount (validate_order_items ?ls') =
      iv_total_amount (validate_order_items ?ls)"
    by simp
  with h total show ?thesis by simp
qed

text \<open>
  C6. For every item list, each line is classified by its first failing rule, the rules
  being tried in the order product exists, quantity greater than 0, quantity at most the
  stock, asserted price within 0.01 of the catalog price: the validated sequence holds,
  in input order, the records of the lines that pass all four rules, and the invalid
  sequence holds, in input order, one record per remaining line with the reason of its
  first failing rule. The classification of a line depends on that line alone, and every
  line lands in exactly one of the two sequences.
\<close>

theorem lines_classified_first_failing_rule:
  "validated_items (validate_order_items ls) = [v. Inr v \<leftarrow> map classify_line ls]
   \<and> invalid_items (validate_order_items ls) = [i. Inl i \<leftarrow> map classify_line ls]
   \<and> length (validated_items (validate_order_items ls))
       + length (invalid_items (validate_order_items ls)) = length ls"
  using length_classified [of ls]
  by (simp add: validate_order_items_refines validated_lines_def invalid_lines_def)

text \<open>
  C8. The item check judges each line against the catalog stock on its own: a list is
  valid exactly when it is non-empty and every line passes the four rules taken alone.
  Quantities of lines naming the same product are never added up, so such a list is
  valid, and its order can be approved, even when the lines together request more than
  the stock.
\<close>

theorem stock_checked_per_line:
  "iv_valid (validate_order_items ls) = (ls \<noteq> [] \<and> (\<forall>l\<in>set ls. line_passes_alone l))"
proof -
  have "ls \<noteq> [] \<Longrightarrow> \<exists>l. l \<in> set ls"
    by (cases ls) auto
  then show ?thesis
    by (auto simp: validate_order_items_refines invalid_lines_Nil validated_lines_Nil)
qed

theorem stock_checked_per_line_witness:
  "combined_quantity (Some ''PROD002'')
      [\<lparr>product_id = Some ''PROD002'', quantity = Some 150, unit_price = Some 25\<rparr>,
       \<lparr>product_id = Some ''PROD002'', quantity = Some 150, unit_price = Some 25\<rparr>] = 300
   \<and> map_option stock (MOCK_PRODUCTS ''PROD002'') = Some 200
   \<and> iv_valid (validate_order_items
      [\<lparr>product_id = Some ''PROD002'', quantity = Some 150, unit_price = Some 25\<rparr>,
       \<lparr>product_id = Some ''PROD002'', quantity = Some 150, unit_price = Some 25\<rparr>])
   \<and> result_status (validate_order no_faults ''ORD-008'' ''CUST001''
      [\<lparr>product_id = Some ''PROD002'', quantity = Some 150, unit_price = Some 25\<rparr>,
       \<lparr>product_id = Some ''PROD002'', quantity = Some 150, unit_price = Some 25\<rparr>]) = Approved"
proof -
  let ?ls = "[\<lparr>product_id = Some ''PROD002'', quantity = Some 150, unit_price = Some (25::rat)\<rparr>,
       \<lparr>product_id = Some ''PROD002'', quantity = Some 150, unit_price = Some 25\<rparr>]"
  have alone: "?ls \<noteq> [] \<and> (\<forall>l\<in>set ?ls. line_passes_alone l)"
    by (simp add: line_passes_alone_def requested_quantity_def get_product_def
        MOCK_PRODUCTS_def)
  with stock_checked_per_line [of ?ls] have valid: "iv_valid (validate_order_items ?ls)"
    by simp
  have combined: "combined_quantity (Some ''PROD002'') ?ls = 300"
    by (simp add: combined_quantity_def requested_quantity_def)
  have stock: "map_option stock (MOCK_PRODUCTS ''PROD002'') = Some 200"
    by (simp add: MOCK_PRODUCTS_def)
  have "result_status (validate_order no_faults ''ORD-008'' ''CUST001'' ?ls) = Approved"
    by code_simp
  with valid combined stock show ?thesis by simp
qed

section \<open>Properties of the workflow\<close>

text \<open>One unfolding of the run for each node, and what each routing function returns after its node.\<close>

lemma graph_run_ErrorHandler:
  "graph_run ft ErrorHandler s tr = Inr (error_handler_node s, tr @ [ErrorHandler])"
  by (simp add: graph_run.simps [of _ ErrorHandler])

lemma graph_run_ProcessOrder:
  "graph_run ft ProcessOrder s tr =
     (case process_order_node s of Inl e \<Rightarrow> Inl e | Inr s' \<Rightarrow> Inr (s', tr @ [ProcessOrder]))"
  by (simp add: graph_run.simps [of _ ProcessOrder] split: sum.splits)

lemma graph_run_CheckCredit:
  "graph_run ft CheckCredit s tr =
     (case should_continue_after_credit (check_credit_node ft s) of
        Inl e \<Rightarrow> Inl e
      | Inr n \<Rightarrow> graph_run ft n (check_credit_node ft s) (tr @ [CheckCredit]))"
  by (simp add: graph_run.simps [of _ CheckCredit] split: sum.splits)

lemma graph_run_ValidateItems:
  "graph_run ft ValidateItems s tr =
     (case should_continue_after_items (validate_items_node ft s) of
        Inl e \<Rightarrow> Inl e
      | Inr n \<Rightarrow> graph_run ft n (validate_items_node ft s) (tr @ [ValidateItems]))"
  by (simp add: graph_run.simps [of _ ValidateItems] split: sum.splits)

lemma graph_run_ValidateCustomer:
  "graph_run ft ValidateCustomer s tr =
     (case should_continue_after_customer (validate_customer_node ft s) of
        Inl e \<Rightarrow> Inl e
      | Inr n \<Rightarrow> graph_run ft n (validate_customer_node ft s) (tr @ [ValidateCustomer]))"
  by (simp add: graph_run.simps [of _ ValidateCustomer] split: sum.splits)

lemma graph_run_ParseOrder:
  "graph_run ft ParseOrder s tr =
     graph_run ft (if status (parse_order s) = Validating then ValidateCustomer else ErrorHandler)
       (parse_order s) (tr @ [ParseOrder])"
  by (simp add: graph_run.simps [of _ ParseOrder])

lemma after_parse_fields:
  "order_id (after_parse oid cid ls) = oid"
  "customer_id (after_parse oid cid ls) = cid"
  "items (after_parse oid cid ls) = ls"
  "customer_validation (after_parse oid cid ls) = None"
  "items_validation (after_parse oid cid ls) = None"
  "credit_validation (after_parse oid cid ls) = None"
  "total_amount (after_parse oid cid ls) = 0"
  "warnings (after_parse oid cid ls) = []"
  "status (after_parse oid cid ls) = (if parse_ok oid cid ls then Validating else Error)"
  "(errors (after_parse oid cid ls) = []) = parse_ok oid cid ls"
  by (auto simp: after_parse_def parse_order_def initial_state_def parse_ok_def Let_def)

lemma route_after_customer:
  "should_continue_after_customer (validate_customer_node ft s) =
     Inr (if customer_ok ft (customer_id s) then ValidateItems else ErrorHandler)"
  by (cases "ft CustomerToolInvoke")
     (simp_all add: should_continue_after_customer_def validate_customer_node_def invoke_def
        customer_ok_def Let_def)

lemma route_after_items:
  "should_continue_after_items (validate_items_node ft s) =
     Inr (if items_ok ft (items s) then CheckCredit else ErrorHandler)"
  by (cases "ft ItemsToolInvoke")
     (simp_all add: should_continue_after_items_def validate_items_node_def invoke_def
        items_ok_def Let_def)

lemma route_after_credit:
  "should_continue_after_credit (check_credit_node ft s) =
     Inr (if ft CreditToolInvoke = None \<and>
             has_credit (check_customer_credit (customer_id s) (total_amount s))
          then ProcessOrder else ErrorHandler)"
  by (cases "ft CreditToolInvoke")
     (simp_all add: should_continue_after_credit_def check_credit_node_def invoke_def Let_def)

lemma after_customer_fields:
  "order_id (after_customer ft oid cid ls) = oid"
  "customer_id (after_customer ft oid cid ls) = cid"
  "items (after_customer ft oid cid ls) = ls"
  "customer_validation (after_customer ft oid cid ls) =
     Some (case ft CustomerToolInvoke of
             None \<Rightarrow> CustomerResult (validate_customer_exists cid)
           | Some e \<Rightarrow> CustomerFailure (CustomerToolError e))"
  "items_validation (after_customer ft oid cid ls) = None"
  "credit_validation (after_customer ft oid cid ls) = None"
  "total_amount (after_customer ft oid cid ls) = 0"
  "warnings (after_customer ft oid cid ls) = []"
  by (simp_all add: after_customer_def validate_customer_node_def invoke_def Let_def
      after_parse_fields split: option.splits)

lemma after_customer_errors:
  "errors (after_customer ft oid cid ls) =
     errors (after_parse oid cid ls) @
     (if customer_ok ft cid then []
      else [customer_get_message (the (customer_validation (after_customer ft oid cid ls)))])"
  by (simp add: after_customer_def validate_customer_node_def invoke_def Let_def
      after_parse_fields customer_ok_def split: option.splits)

lemma after_items_fields:
  "order_id (after_items ft oid cid ls) = oid"
  "customer_id (after_items ft oid cid ls) = cid"
  "items (after_items ft oid cid ls) = ls"
  "customer_validation (after_items ft oid cid ls) =
     customer_validation (after_customer ft oid cid ls)"
  "items_validation (after_items ft oid cid ls) =
     Some (case ft ItemsToolInvoke of
             None \<Rightarrow> ItemsResult (validate_order_items ls)
           | Some e \<Rightarrow> ItemsFailure (ItemsToolError e))"
  "credit_validation (after_items ft oid cid ls) = None"
  "total_amount (after_items ft oid cid ls) =
     (case ft ItemsToolInvoke of
        None \<Rightarrow> iv_total_amount (validate_order_items ls)
      | Some e \<Rightarrow> 0)"
  "warnings (after_items ft oid cid ls) = []"
  by (simp_all add: after_items_def validate_items_node_def invoke_def Let_def
      after_customer_fields split: option.splits)

lemma after_items_errors:
  "errors (after_items ft oid cid ls) =
     errors (after_customer ft oid cid ls) @
     (case ft ItemsToolInvoke of
        None \<Rightarrow>
          if iv_valid (validate_order_items ls) then []
          else iv_message (validate_order_items ls) #
               map (\<lambda>invalid. ItemError (inv_product_id invalid) (inv_reason invalid))
                 (invalid_items (validate_order_items ls))
      | Some e \<Rightarrow> [ItemsToolError e])"
  by (simp add: after_items_def validate_items_node_def invoke_def Let_def
      after_customer_fields split: option.splits)

lemma after_credit_fields:
  "order_id (after_credit ft oid cid ls) = oid"
  "customer_id (after_credit ft oid cid ls) = cid"
  "items (after_credit ft oid cid ls) = ls"
  "customer_validation (after_credit ft oid cid ls) =
     customer_validation (after_customer ft oid cid ls)"
  "items_validation (after_credit ft oid cid ls) =
     items_validation (after_items ft oid cid ls)"
  "credit_validation (after_credit ft oid cid ls) =
     Some (case ft CreditToolInvoke of
             None \<Rightarrow> CreditResult (check_customer_credit cid
                        (total_amount (after_items ft oid cid ls)))
           | Some e \<Rightarrow> CreditFailure (CreditToolError e))"
  "total_amount (after_credit ft oid cid ls) = total_amount (after_items ft oid cid ls)"
  "warnings (after_credit ft oid cid ls) = []"
  by (simp_all add: after_credit_def check_credit_node_def invoke_def Let_def
      after_items_fields split: option.splits)

lemma after_credit_errors:
  "errors (after_credit ft oid cid ls) =
     errors (after_items ft oid cid ls) @
     (case ft CreditToolInvoke of
        None \<Rightarrow>
          if has_credit (check_customer_credit cid (total_amount (after_items ft oid cid ls)))
          then []
          else [cr_message (check_customer_credit cid
                  (total_amount (after_items ft oid cid ls)))]
      | Some e \<Rightarrow> [CreditToolError e])"
  by (simp add: after_credit_def check_credit_node_def invoke_def Let_def
      after_items_fields split: option.splits)

lemma error_handler_fields:
  "status (error_handler_node s) = Rejected"
  "approved (error_handler_node s) = False"
  "errors (error_handler_node s) = errors s"
  "warnings (error_handler_node s) = warnings s"
  "total_amount (error_handler_node s) = total_amount s"
  "customer_validation (error_handler_node s) = customer_validation s"
  "items_validation (error_handler_node s) = items_validation s"
  "credit_validation (error_handler_node s) = credit_validation s"
  "message (error_handler_node s) = OrderRejected (order_id s) (length (errors s))"
  "validation_details (error_handler_node s) = RejectedDetails
     \<lparr>rd_customer = customer_validation s, rd_items = items_validation s,
      rd_credit = credit_validation s, rd_errors = errors s, rd_warnings = warnings s,
      rd_summary = \<lparr>rs_order_id = order_id s, rs_customer_id = customer_id s,
                    rs_total_amount = total_amount s, rs_approved = False,
                    error_count = length (errors s)\<rparr>\<rparr>"
  by (simp_all add: error_handler_node_def Let_def)

lemma process_order_node_set:
  assumes "items_validation s = Some iv"
  shows "\<exists>s'. process_order_node s = Inr s' \<and> status s' = Approved \<and> approved s' \<and>
           errors s' = errors s \<and> total_amount s' = total_amount s \<and>
           customer_validation s' = customer_validation s \<and>
           items_validation s' = items_validation s \<and>
           credit_validation s' = credit_validation s"
  using assms by (cases iv) (simp_all add: process_order_node_def Let_def)

lemma app_invoke_run:
  "app_invoke ft (initial_state oid cid ls) =
     (case ft GraphInvoke of
        Some e \<Rightarrow> Inl e
      | None \<Rightarrow>
          if \<not> parse_ok oid cid ls then
            Inr (error_handler_node (after_parse oid cid ls), [ParseOrder, ErrorHandler])
          else if \<not> customer_ok ft cid then
            Inr (error_handler_node (after_customer ft oid cid ls),
                 [ParseOrder, ValidateCustomer, ErrorHandler])
          else if \<not> items_ok ft ls then
            Inr (error_handler_node (after_items ft oid cid ls),
                 [ParseOrder, ValidateCustomer, ValidateItems, ErrorHandler])
          else if \<not> credit_ok ft cid ls then
            Inr (error_handler_node (after_credit ft oid cid ls),
                 [ParseOrder, ValidateCustomer, ValidateItems, CheckCredit, ErrorHandler])
          else
            (case process_order_node (after_credit ft oid cid ls) of
               Inl e \<Rightarrow> Inl e
             | Inr s \<Rightarrow>
                 Inr (s, [ParseOrder, ValidateCustomer, ValidateItems, CheckCredit,
                          ProcessOrder])))"
proof (cases "ft GraphInvoke")
  case (Some e)
  then show ?thesis by (simp add: app_invoke_def)
next
  case None
  have parse: "graph_run ft ParseOrder (initial_state oid cid ls) [] =
      graph_run ft (if parse_ok oid cid ls then ValidateCustomer else ErrorHandler)
        (after_parse oid cid ls) [ParseOrder]"
    unfolding after_parse_def
    by (simp add: graph_run_ParseOrder after_parse_fields [unfolded after_parse_def])
  have customer: "graph_run ft ValidateCustomer (after_parse oid cid ls) [ParseOrder] =
      graph_run ft (if customer_ok ft cid then ValidateItems else ErrorHandler)
        (after_customer ft oid cid ls) [ParseOrder, ValidateCustomer]"
    unfolding after_customer_def
    by (simp add: graph_run_ValidateCustomer route_after_customer after_parse_fields)
  have items: "graph_run ft ValidateItems (after_customer ft oid cid ls)
        [ParseOrder, ValidateCustomer] =
      graph_run ft (if items_ok ft ls then CheckCredit else ErrorHandler)
        (after_items ft oid cid ls) [ParseOrder, ValidateCustomer, ValidateItems]"
    unfolding after_items_def
    by (simp add: graph_run_ValidateItems route_after_items after_customer_fields)
  have credit: "items_ok ft ls \<Longrightarrow>
      graph_run ft CheckCredit (after_items ft oid cid ls)
        [ParseOrder, ValidateCustomer, ValidateItems] =
      graph_run ft (if credit_ok ft cid ls then ProcessOrder else ErrorHandler)
        (after_credit ft oid cid ls)
        [ParseOrder, ValidateCustomer, ValidateItems, CheckCredit]"
    unfolding after_credit_def
    by (simp add: graph_run_CheckCredit route_after_credit after_items_fields
        items_ok_def credit_ok_def)
  from None show ?thesis
    by (simp add: app_invoke_def parse customer items credit graph_run_ErrorHandler
        graph_run_ProcessOrder split: sum.splits)
qed

section \<open>Claims about the workflow and the entry point\<close>

lemma after_parse_errors_nonempty:
  "\<not> parse_ok oid cid ls \<Longrightarrow> errors (after_parse oid cid ls) \<noteq> []"
  by (simp add: after_parse_fields)

lemma validate_order_rejected_run:
  assumes "app_invoke ft (initial_state oid cid ls) = Inr (error_handler_node s, tr)"
  shows "validate_order ft oid cid ls =
    \<lparr>result_status = Rejected, result_approved = False,
     result_message = OrderRejected (order_id s) (length (errors s)),
     result_total_amount = total_amount s,
     result_errors = errors s, result_warnings = warnings s,
     result_validation_details = validation_details (error_handler_node s)\<rparr>"
  by (simp add: validate_order_def assms error_handler_fields)

text \<open>
  C1. For every order with an empty order id, an empty customer id or an empty item
  list, run without a failure of the graph library: the parse step sets the status to
  \<open>Error\<close>, the run goes from the parse step straight to the reject handler, which
  overwrites the status, and \<open>validate_order\<close> returns status \<open>Rejected\<close>, approved
  false and a non-empty error list. The status set by the parse step is not the status
  of the result.
\<close>
theorem structural_failure_rejected:
  assumes "ft GraphInvoke = None" and "oid = [] \<or> cid = [] \<or> ls = []"
  shows "status (parse_order (initial_state oid cid ls)) = Error
    \<and> app_invoke ft (initial_state oid cid ls) =
        Inr (error_handler_node (parse_order (initial_state oid cid ls)),
             [ParseOrder, ErrorHandler])
    \<and> result_status (validate_order ft oid cid ls) = Rejected
    \<and> \<not> result_approved (validate_order ft oid cid ls)
    \<and> result_errors (validate_order ft oid cid ls) \<noteq> []"
proof -
  from assms(2) have bad: "\<not> parse_ok oid cid ls"
    by (auto simp: parse_ok_def)
  then have st: "status (parse_order (initial_state oid cid ls)) = Error"
    using after_parse_fields(9) [of oid cid ls] by (simp add: after_parse_def)
  from assms(1) bad have run: "app_invoke ft (initial_state oid cid ls) =
      Inr (error_handler_node (after_parse oid cid ls), [ParseOrder, ErrorHandler])"
    by (simp add: app_invoke_run)
  from bad have "errors (after_parse oid cid ls) \<noteq> []"
    by (rule after_parse_errors_nonempty)
  with st run show ?thesis
    by (simp add: validate_order_rejected_run [OF run] after_parse_def)
qed

theorem structural_failure_rejected_witness:
  "no_faults GraphInvoke = None
   \<and> result_status (validate_order no_faults '''' ''CUST001''
       [\<lparr>product_id = Some ''PROD001'', quantity = Some 1, unit_price = Some 1200\<rparr>]) = Rejected
   \<and> result_errors (validate_order no_faults '''' ''CUST001''
       [\<lparr>product_id = Some ''PROD001'', quantity = Some 1, unit_price = Some 1200\<rparr>])
       = [OrderIdNotProvided]"
proof -
  have g: "no_faults GraphInvoke = None"
    by (simp add: no_faults_def)
  have e: "result_errors (validate_order no_faults '''' ''CUST001''
       [\<lparr>product_id = Some ''PROD001'', quantity = Some 1, unit_price = Some 1200\<rparr>])
       = [OrderIdNotProvided]"
    by code_simp
  from g structural_failure_rejected [of no_faults "''''" "''CUST001''"
      "[\<lparr>product_id = Some ''PROD001'', quantity = Some 1, unit_price = Some 1200\<rparr>]"]
  have "result_status (validate_order no_faults '''' ''CUST001''
       [\<lparr>product_id = Some ''PROD001'', quantity = Some 1, unit_price = Some 1200\<rparr>]) = Rejected"
    by simp
  with g e show ?thesis by simp
qed

lemma app_invoke_InrE:
  assumes "app_invoke ft (initial_state oid cid ls) = Inr (s, tr)"
  obtains
    (parse) "\<not> parse_ok oid cid ls"
      "s = error_handler_node (after_parse oid cid ls)"
      "tr = [ParseOrder, ErrorHandler]"
  | (customer) "parse_ok oid cid ls" "\<not> customer_ok ft cid"
      "s = error_handler_node (after_customer ft oid cid ls)"
      "tr = [ParseOrder, ValidateCustomer, ErrorHandler]"
  | (items) "parse_ok oid cid ls" "customer_ok ft cid" "\<not> items_ok ft ls"
      "s = error_handler_node (after_items ft oid cid ls)"
      "tr = [ParseOrder, ValidateCustomer, ValidateItems, ErrorHandler]"
  | (credit) "parse_ok oid cid ls" "customer_ok ft cid" "items_ok ft ls"
      "\<not> credit_ok ft cid ls"
      "s = error_handler_node (after_credit ft oid cid ls)"
      "tr = [ParseOrder, ValidateCustomer, ValidateItems, CheckCredit, ErrorHandler]"
  | (approved) "parse_ok oid cid ls" "customer_ok ft cid" "items_ok ft ls"
      "credit_ok ft cid ls"
      "process_order_node (after_credit ft oid cid ls) = Inr s"
      "tr = [ParseOrder, ValidateCustomer, ValidateItems, CheckCredit, ProcessOrder]"
  using assms
  by (auto simp: app_invoke_run split: option.splits if_splits sum.splits)

lemma validate_order_Inr:
  assumes "app_invoke ft (initial_state oid cid ls) = Inr (s, tr)"
  shows "validate_order ft oid cid ls =
    \<lparr>result_status = status s, result_approved = approved s,
     result_message = message s, result_total_amount = total_amount s,
     result_errors = errors s, result_warnings = warnings s,
     result_validation_details = validation_details s\<rparr>"
  by (simp add: validate_order_def assms)

text \<open>
  C2. For every run of the workflow that ends with an invalid customer verdict in the
  state (the verdict of the tool, or the one stored when the tool call raised), the
  nodes executed are the parse step, the customer check and the reject handler: the
  item check and the credit check are not executed. The items and credit slots are still
  unset, in the state and in the detail record, the error list holds the customer
  verdict's message and nothing else, and the result is rejected.
\<close>
theorem customer_failure_short_circuits:
  assumes run: "app_invoke ft (initial_state oid cid ls) = Inr (s, tr)"
    and verdict: "customer_validation s = Some cv"
    and invalid: "\<not> customer_get_valid cv"
  shows "tr = [ParseOrder, ValidateCustomer, ErrorHandler]
    \<and> items_validation s = None
    \<and> credit_validation s = None
    \<and> errors s = [customer_get_message cv]
    \<and> status s = Rejected
    \<and> (\<exists>d. validation_details s = RejectedDetails d \<and> rd_customer d = Some cv \<and>
            rd_items d = None \<and> rd_credit d = None \<and> rd_errors d = [customer_get_message cv])
    \<and> result_status (validate_order ft oid cid ls) = Rejected
    \<and> result_errors (validate_order ft oid cid ls) = [customer_get_message cv]"
  using run
proof (cases rule: app_invoke_InrE)
  case parse
  with verdict show ?thesis
    by (simp add: error_handler_fields after_parse_fields)
next
  case customer
  from customer(3) verdict have cv: "customer_validation (after_customer ft oid cid ls) = Some cv"
    by (simp add: error_handler_fields)
  from customer(1) have "errors (after_parse oid cid ls) = []"
    by (simp add: after_parse_fields)
  with customer(2) cv have errs: "errors (after_customer ft oid cid ls) = [customer_get_message cv]"
    by (simp add: after_customer_errors)
  from customer(3,4) cv errs show ?thesis
    by (simp add: validate_order_Inr [OF run] error_handler_fields after_customer_fields)
next
  case items
  from items(2) verdict invalid items(4) show ?thesis
    by (auto simp: customer_ok_def error_handler_fields after_items_fields after_customer_fields)
next
  case credit
  from credit(2) verdict invalid credit(5) show ?thesis
    by (auto simp: customer_ok_def error_handler_fields after_credit_fields after_customer_fields)
next
  case approved
  from approved(3) obtain iv where "items_validation (after_credit ft oid cid ls) = Some iv"
    by (simp add: after_credit_fields after_items_fields)
  from process_order_node_set [OF this] approved(5)
  have "customer_validation s = customer_validation (after_credit ft oid cid ls)"
    by auto
  with approved(2) verdict invalid show ?thesis
    by (auto simp: customer_ok_def after_credit_fields after_customer_fields)
qed

theorem customer_failure_short_circuits_witness:
  "(\<exists>s tr cv. app_invoke no_faults (initial_state ''ORD-003'' ''CUST003''
        [\<lparr>product_id = Some ''PROD004'', quantity = Some 2, unit_price = Some 350\<rparr>]) = Inr (s, tr)
      \<and> customer_validation s = Some cv \<and> \<not> customer_get_valid cv
      \<and> tr = [ParseOrder, ValidateCustomer, ErrorHandler]
      \<and> items_validation s = None \<and> credit_validation s = None)
   \<and> result_errors (validate_order no_faults ''ORD-003'' ''CUST003''
        [\<lparr>product_id = Some ''PROD004'', quantity = Some 2, unit_price = Some 350\<rparr>])
      = [CustomerInactive ''CUST003'']"
proof -
  let ?ls = "[\<lparr>product_id = Some ''PROD004'', quantity = Some 2, unit_price = Some (350::rat)\<rparr>]"
  let ?s = "error_handler_node (after_customer no_faults ''ORD-003'' ''CUST003'' ?ls)"
  let ?cv = "CustomerResult (validate_customer_exists ''CUST003'')"
  have bad: "\<not> customer_ok no_faults ''CUST003''"
    by (simp add: customer_ok_def validate_customer_exists_def MOCK_CUSTOMERS_def)
  then have run: "app_invoke no_faults (initial_state ''ORD-003'' ''CUST003'' ?ls) =
      Inr (?s, [ParseOrder, ValidateCustomer, ErrorHandler])"
    by (simp add: app_invoke_run no_faults_def parse_ok_def)
  have verdict: "customer_validation ?s = Some ?cv"
    by (simp add: error_handler_fields after_customer_fields no_faults_def)
  have invalid: "\<not> customer_get_valid ?cv"
    by (simp add: validate_customer_exists_def MOCK_CUSTOMERS_def)
  have msg: "customer_get_message ?cv = CustomerInactive ''CUST003''"
    by (simp add: validate_customer_exists_def MOCK_CUSTOMERS_def)
  note t = customer_failure_short_circuits [OF run verdict invalid]
  from t msg have "result_errors (validate_order no_faults ''ORD-003'' ''CUST003'' ?ls)
      = [CustomerInactive ''CUST003'']"
    by simp
  moreover from t run verdict invalid
  have "\<exists>s tr cv. app_invoke no_faults (initial_state ''ORD-003'' ''CUST003'' ?ls) = Inr (s, tr)
      \<and> customer_validation s = Some cv \<and> \<not> customer_get_valid cv
      \<and> tr = [ParseOrder, ValidateCustomer, ErrorHandler]
      \<and> items_validation s = None \<and> credit_validation s = None"
    by blast
  ultimately show ?thesis by simp
qed

text \<open>
  C5. For every customer found in the catalog and every required amount, the credit
  verdict has \<open>has_credit\<close> exactly when credit limit minus current balance is at least
  the required amount. The boundary is inclusive: a required amount equal to the
  available credit is sufficient, and one that exceeds it by 0.01 is not. The message of
  an insufficient verdict carries the available credit, the required amount and the
  deficit, required minus available.
\<close>
theorem credit_boundary_inclusive:
  assumes "MOCK_CUSTOMERS cid = Some c"
  shows "has_credit (check_customer_credit cid amount) =
           (credit_limit c - current_balance c \<ge> amount)
    \<and> available_credit (check_customer_credit cid amount) = credit_limit c - current_balance c
    \<and> required_amount (check_customer_credit cid amount) = amount
    \<and> has_credit (check_customer_credit cid (credit_limit c - current_balance c))
    \<and> \<not> has_credit (check_customer_credit cid (credit_limit c - current_balance c + 1 / 100))
    \<and> cr_message (check_customer_credit cid amount) =
        (if credit_limit c - current_balance c \<ge> amount
         then CreditSufficient (credit_limit c - current_balance c) amount
         else CreditInsufficient (credit_limit c - current_balance c) amount
                (amount - (credit_limit c - current_balance c)))"
  using assms by (simp add: check_customer_credit_def Let_def)

theorem credit_boundary_inclusive_witness:
  "(\<exists>c. MOCK_CUSTOMERS ''CUST005'' = Some c \<and> credit_limit c - current_balance c = 5000)
   \<and> has_credit (check_customer_credit ''CUST005'' 5000)
   \<and> \<not> has_credit (check_customer_credit ''CUST005'' (5000 + 1 / 100))
   \<and> cr_message (check_customer_credit ''CUST005'' (5000 + 1 / 100)) =
       CreditInsufficient 5000 (5000 + 1 / 100) (1 / 100)"
proof -
  let ?c = "\<lparr>cust_id = ''CUST005'', cust_name = ''Enterprise Systems'',
        cust_email = ''contact@enterprise.com'', cust_status = ''active'',
        credit_limit = 20000, current_balance = 15000\<rparr>"
  have found: "MOCK_CUSTOMERS ''CUST005'' = Some ?c"
    by (simp add: MOCK_CUSTOMERS_def)
  have avail: "credit_limit ?c - current_balance ?c = 5000"
    by simp
  from credit_boundary_inclusive [OF found, of "5000 + 1 / 100"] avail
  have "has_credit (check_customer_credit ''CUST005'' 5000)
    \<and> \<not> has_credit (check_customer_credit ''CUST005'' (5000 + 1 / 100))
    \<and> cr_message (check_customer_credit ''CUST005'' (5000 + 1 / 100)) =
       CreditInsufficient 5000 (5000 + 1 / 100) (1 / 100)"
    by simp
  with found avail show ?thesis by blast
qed

text \<open>
  On a run from the initial state no node and no routing function raises: every slot is
  set before it is read. The only exception that reaches the entry point is the one of
  the graph library.
\<close>

lemma app_invoke_Inl_only_graph:
  assumes "app_invoke ft (initial_state oid cid ls) = Inl e"
  shows "ft GraphInvoke = Some e"
proof (cases "ft GraphInvoke")
  case (Some e')
  with assms show ?thesis by (simp add: app_invoke_def)
next
  case None
  have "\<exists>s. process_order_node (after_credit ft oid cid ls) = Inr s" if "items_ok ft ls"
  proof -
    from that obtain iv where "items_validation (after_credit ft oid cid ls) = Some iv"
      by (simp add: after_credit_fields after_items_fields)
    from process_order_node_set [OF this] show ?thesis by blast
  qed
  with None assms show ?thesis
    by (auto simp: app_invoke_run split: if_splits sum.splits)
qed

lemma app_invoke_Inr_without_graph_fault:
  assumes "ft GraphInvoke = None"
  obtains s tr where "app_invoke ft (initial_state oid cid ls) = Inr (s, tr)"
proof (cases "app_invoke ft (initial_state oid cid ls)")
  case (Inl e)
  then have "ft GraphInvoke = Some e"
    by (rule app_invoke_Inl_only_graph)
  with assms show ?thesis by simp
next
  case (Inr r)
  with that show ?thesis by (cases r) auto
qed

lemma tool_fault_not_all_ok:
  assumes "ft GraphInvoke = None" and "ft site = Some e"
  shows "\<not> (customer_ok ft cid \<and> items_ok ft ls \<and> credit_ok ft cid ls)"
  using assms by (cases site) (auto simp: customer_ok_def items_ok_def credit_ok_def)

text \<open>
  C7, as stated, fails. The claim has every failure raised while the workflow runs
  caught at the entry point and reported with status \<open>Error\<close>, total 0, an empty
  detail record and one synthetic message. A tool invocation that raises is caught
  earlier, by the handler of its node, and the run goes on to the reject handler. Here
  the credit tool raises for a valid order of an active customer: the result is
  \<open>Rejected\<close>, not \<open>Error\<close>, its total is the 1200 computed by the item check, its
  only error is the node's message, and its detail record is populated.
\<close>

theorem entry_point_status_counterexample:
  "(no_faults(CreditToolInvoke := Some (Raised ''credit lookup failure''))) CreditToolInvoke
      = Some (Raised ''credit lookup failure'')
   \<and> result_status (validate_order
        (no_faults(CreditToolInvoke := Some (Raised ''credit lookup failure'')))
        ''ORD-007'' ''CUST001''
        [\<lparr>product_id = Some ''PROD001'', quantity = Some 1, unit_price = Some 1200\<rparr>]) = Rejected
   \<and> result_status (validate_order
        (no_faults(CreditToolInvoke := Some (Raised ''credit lookup failure'')))
        ''ORD-007'' ''CUST001''
        [\<lparr>product_id = Some ''PROD001'', quantity = Some 1, unit_price = Some 1200\<rparr>]) \<noteq> Error
   \<and> result_total_amount (validate_order
        (no_faults(CreditToolInvoke := Some (Raised ''credit lookup failure'')))
        ''ORD-007'' ''CUST001''
        [\<lparr>product_id = Some ''PROD001'', quantity = Some 1, unit_price = Some 1200\<rparr>]) = 1200
   \<and> result_errors (validate_order
        (no_faults(CreditToolInvoke := Some (Raised ''credit lookup failure'')))
        ''ORD-007'' ''CUST001''
        [\<lparr>product_id = Some ''PROD001'', quantity = Some 1, unit_price = Some 1200\<rparr>])
       = [CreditToolError (Raised ''credit lookup failure'')]
   \<and> result_validation_details (validate_order
        (no_faults(CreditToolInvoke := Some (Raised ''credit lookup failure'')))
        ''ORD-007'' ''CUST001''
        [\<lparr>product_id = Some ''PROD001'', quantity = Some 1, unit_price = Some 1200\<rparr>])
       \<noteq> NoDetails"
proof -
  let ?ft = "no_faults(CreditToolInvoke := Some (Raised ''credit lookup failure''))"
  let ?ls = "[\<lparr>product_id = Some ''PROD001'', quantity = Some 1, unit_price = Some (1200::rat)\<rparr>]"
  have cust: "customer_ok ?ft ''CUST001''"
    by (simp add: customer_ok_def no_faults_def validate_customer_exists_def MOCK_CUSTOMERS_def)
  have verdict: "iv_valid (validate_order_items ?ls) \<and> iv_total_amount (validate_order_items ?ls) = 1200"
    by (simp add: validate_order_items_def get_product_def MOCK_PRODUCTS_def Let_def)
  then have its: "items_ok ?ft ?ls"
    by (simp add: items_ok_def no_faults_def)
  have "\<not> credit_ok ?ft ''CUST001'' ?ls"
    by (simp add: credit_ok_def)
  with cust its have run: "app_invoke ?ft (initial_state ''ORD-007'' ''CUST001'' ?ls) =
      Inr (error_handler_node (after_credit ?ft ''ORD-007'' ''CUST001'' ?ls),
           [ParseOrder, ValidateCustomer, ValidateItems, CheckCredit, ErrorHandler])"
    by (simp add: app_invoke_run no_faults_def parse_ok_def)
  have errs: "errors (after_credit ?ft ''ORD-007'' ''CUST001'' ?ls) =
      [CreditToolError (Raised ''credit lookup failure'')]"
    using cust its
    by (simp add: after_credit_errors after_items_errors after_customer_errors
        after_parse_fields parse_ok_def items_ok_def no_faults_def)
  have total: "total_amount (after_credit ?ft ''ORD-007'' ''CUST001'' ?ls) = 1200"
    using verdict by (simp add: after_credit_fields after_items_fields no_faults_def)
  from errs total show ?thesis
    by (simp add: validate_order_Inr [OF run] error_handler_fields)
qed

text \<open>
  C7, amended. For every invocation of \<open>validate_order\<close>, the failures that reach the
  entry point are exactly the exceptions raised by building or running the graph itself.
  Such a failure is caught there and converted into a result with status \<open>Error\<close>,
  approved false, total 0, no warnings, an empty detail record, and one message, which
  carries the order id and the exception and is the only entry of the error list. When
  the graph itself does not fail, the status is approved or rejected, never error; and
  when in addition a tool invocation is set to raise, the result is rejected, not
  approved, with a populated detail record. In every case the caller receives a final
  result whose status is approved, rejected or error.
\<close>

theorem entry_point_contains_escaping_failures:
  "(app_invoke ft (initial_state oid cid ls) = Inl e) = (ft GraphInvoke = Some e)
   \<and> (ft GraphInvoke = Some e \<longrightarrow>
        validate_order ft oid cid ls =
          \<lparr>result_status = Error, result_approved = False,
           result_message = CriticalError oid e, result_total_amount = 0,
           result_errors = [CriticalError oid e], result_warnings = [],
           result_validation_details = NoDetails\<rparr>)
   \<and> (ft GraphInvoke = None \<longrightarrow>
        result_status (validate_order ft oid cid ls) \<in> {Approved, Rejected})
   \<and> (ft GraphInvoke = None \<and> ft site = Some e' \<longrightarrow>
        result_status (validate_order ft oid cid ls) = Rejected \<and>
        \<not> result_approved (validate_order ft oid cid ls) \<and>
        result_validation_details (validate_order ft oid cid ls) \<noteq> NoDetails)
   \<and> result_status (validate_order ft oid cid ls) \<in> {Approved, Rejected, Error}"
proof -
  have escapes: "(app_invoke ft (initial_state oid cid ls) = Inl e) = (ft GraphInvoke = Some e)"
    using app_invoke_Inl_only_graph [of ft oid cid ls e]
    by (auto simp: app_invoke_def)
  have caught: "validate_order ft oid cid ls =
          \<lparr>result_status = Error, result_approved = False,
           result_message = CriticalError oid e, result_total_amount = 0,
           result_errors = [CriticalError oid e], result_warnings = [],
           result_validation_details = NoDetails\<rparr>" if "ft GraphInvoke = Some e"
    using that by (simp add: validate_order_def app_invoke_def Let_def)
  have inside: "result_status (validate_order ft oid cid ls) \<in> {Approved, Rejected} \<and>
      (ft site = Some e' \<longrightarrow>
        result_status (validate_order ft oid cid ls) = Rejected \<and>
        \<not> result_approved (validate_order ft oid cid ls) \<and>
        result_validation_details (validate_order ft oid cid ls) \<noteq> NoDetails)"
    if no_graph_fault: "ft GraphInvoke = None"
  proof -
    from no_graph_fault obtain s tr
      where run: "app_invoke ft (initial_state oid cid ls) = Inr (s, tr)"
      by (rule app_invoke_Inr_without_graph_fault)
    note res = validate_order_Inr [OF run]
    from run show ?thesis
    proof (cases rule: app_invoke_InrE)
      case approved
      from approved(3) obtain iv where "items_validation (after_credit ft oid cid ls) = Some iv"
        by (simp add: after_credit_fields after_items_fields)
      from process_order_node_set [OF this] approved(5) have "status s = Approved"
        by auto
      moreover from approved(2-4) no_graph_fault tool_fault_not_all_ok [of ft site e' cid ls]
      have "ft site \<noteq> Some e'"
        by blast
      ultimately show ?thesis
        by (simp add: res)
    qed (simp_all add: res error_handler_fields)
  qed
  have wf: "result_status (validate_order ft oid cid ls) \<in> {Approved, Rejected, Error}"
  proof (cases "ft GraphInvoke")
    case None
    with inside show ?thesis by auto
  next
    case (Some e0)
    then show ?thesis
      by (simp add: validate_order_def app_invoke_def Let_def)
  qed
  from escapes caught inside wf show ?thesis
    by blast
qed

theorem entry_point_contains_escaping_failures_witness:
  "validate_order (no_faults(GraphInvoke := Some (Raised ''graph failure'')))
        ''ORD-007'' ''CUST001''
        [\<lparr>product_id = Some ''PROD001'', quantity = Some 1, unit_price = Some 1200\<rparr>] =
      \<lparr>result_status = Error, result_approved = False,
       result_message = CriticalError ''ORD-007'' (Raised ''graph failure''),
       result_total_amount = 0,
       result_errors = [CriticalError ''ORD-007'' (Raised ''graph failure'')],
       result_warnings = [], result_validation_details = NoDetails\<rparr>
   \<and> (no_faults(CustomerToolInvoke := Some (Raised ''lookup failure''))) GraphInvoke = None
   \<and> (no_faults(CustomerToolInvoke := Some (Raised ''lookup failure''))) CustomerToolInvoke
        = Some (Raised ''lookup failure'')
   \<and> result_status (validate_order (no_faults(CustomerToolInvoke := Some (Raised ''lookup failure'')))
        ''ORD-007'' ''CUST001''
        [\<lparr>product_id = Some ''PROD001'', quantity = Some 1, unit_price = Some 1200\<rparr>]) = Rejected"
proof -
  let ?ls = "[\<lparr>product_id = Some ''PROD001'', quantity = Some 1, unit_price = Some (1200::rat)\<rparr>]"
  let ?g = "no_faults(GraphInvoke := Some (Raised ''graph failure''))"
  let ?c = "no_faults(CustomerToolInvoke := Some (Raised ''lookup failure''))"
  have raised: "?g GraphInvoke = Some (Raised ''graph failure'')"
    by simp
  have quiet: "?c GraphInvoke = None"
    by (simp add: no_faults_def)
  have tool: "?c CustomerToolInvoke = Some (Raised ''lookup failure'')"
    by simp
  from raised entry_point_contains_escaping_failures
    [of ?g "''ORD-007''" "''CUST001''" ?ls "Raised ''graph failure''"]
  have first: "validate_order ?g ''ORD-007'' ''CUST001'' ?ls =
      \<lparr>result_status = Error, result_approved = False,
       result_message = CriticalError ''ORD-007'' (Raised ''graph failure''),
       result_total_amount = 0,
       result_errors = [CriticalError ''ORD-007'' (Raised ''graph failure'')],
       result_warnings = [], result_validation_details = NoDetails\<rparr>"
    by blast
  from quiet tool entry_point_contains_escaping_failures
    [of ?c "''ORD-007''" "''CUST001''" ?ls _ CustomerToolInvoke "Raised ''lookup failure''"]
  have "result_status (validate_order ?c ''ORD-007'' ''CUST001'' ?ls) = Rejected"
    by blast
  with first quiet tool show ?thesis
    by blast
qed

lemma catalog_prices_positive: "get_product pid = Some p \<Longrightarrow> 0 < price p"
  by (auto simp: get_product_def MOCK_PRODUCTS_def split: option.splits if_splits)

lemma catalog_line_total_positive: "line_passes_alone l \<Longrightarrow> 0 < catalog_line_total l"
  by (auto simp: line_passes_alone_def catalog_line_total_def catalog_prices_positive
      split: option.splits)

lemma total_passing_lines:
  "sum_list (map item_total (validated_lines ls)) =
     (\<Sum>l\<leftarrow>filter line_passes_alone ls. catalog_line_total l)"
proof (induction ls)
  case Nil
  show ?case by (simp add: validated_lines_simps)
next
  case (Cons l ls)
  show ?case
  proof (cases "line_passes_alone l")
    case True
    then obtain v where v: "classify_line l = Inr v"
      using classify_line_Inr [of l] by blast
    with True Cons.IH show ?thesis
      by (simp add: validated_lines_simps item_total_passing)
  next
    case False
    then have "\<exists>i. classify_line l = Inl i"
      using classify_line_Inr [of l] by (cases "classify_line l") auto
    with False Cons.IH show ?thesis
      by (auto simp: validated_lines_simps)
  qed
qed

lemma validated_items_unit_price:
  "item_total v = v_unit_price v * of_int (v_quantity v)"
  if "v \<in> set (validated_lines ls)"
  using that
  by (induction ls)
     (auto simp: validated_lines_simps classify_line_def split: sum.splits)

lemma sum_list_pos_nonempty:
  fixes f :: "'a \<Rightarrow> rat"
  assumes "xs \<noteq> []" and pos: "\<forall>x\<in>set xs. 0 < f x"
  shows "0 < sum_list (map f xs)"
proof -
  from assms(1) obtain y ys where xs: "xs = y # ys"
    by (cases xs) auto
  from pos xs have "0 < f y"
    by simp
  moreover from pos xs have "0 \<le> sum_list (map f ys)"
    by (intro sum_list_nonneg) (auto simp: less_imp_le)
  ultimately show ?thesis
    by (simp add: xs add_pos_nonneg)
qed

lemma filter_passing_nonempty:
  "validated_lines ls \<noteq> [] \<Longrightarrow> filter line_passes_alone ls \<noteq> []"
  by (auto simp: validated_lines_Nil filter_empty_conv)

text \<open>
  C9. For every run that ends with an invalid item verdict holding at least one
  validated line, the run went from the item check to the reject handler, and the
  state's total is the verdict's total: the sum, over the validated lines only, of
  catalog price times quantity. It is greater than 0, and it is the total of the
  rejected final result.
\<close>
theorem rejected_order_reports_partial_total:
  assumes run: "app_invoke ft (initial_state oid cid ls) = Inr (s, tr)"
    and verdict: "items_validation s = Some (ItemsResult v)"
    and invalid: "\<not> iv_valid v"
    and some_valid: "validated_items v \<noteq> []"
  shows "tr = [ParseOrder, ValidateCustomer, ValidateItems, ErrorHandler]
    \<and> status s = Rejected
    \<and> total_amount s = iv_total_amount v
    \<and> total_amount s = (\<Sum>x\<leftarrow>validated_items v. v_unit_price x * of_int (v_quantity x))
    \<and> total_amount s = (\<Sum>l\<leftarrow>filter line_passes_alone ls. catalog_line_total l)
    \<and> 0 < total_amount s
    \<and> result_status (validate_order ft oid cid ls) = Rejected
    \<and> result_total_amount (validate_order ft oid cid ls) = total_amount s"
  using run
proof (cases rule: app_invoke_InrE)
  case parse
  with verdict show ?thesis
    by (simp add: error_handler_fields after_parse_fields)
next
  case customer
  with verdict show ?thesis
    by (simp add: error_handler_fields after_customer_fields)
next
  case items
  from items(4) verdict have slot: "items_validation (after_items ft oid cid ls) =
      Some (ItemsResult v)"
    by (simp add: error_handler_fields)
  then have no_fault: "ft ItemsToolInvoke = None" and v: "v = validate_order_items ls"
    by (auto simp: after_items_fields split: option.splits)
  from no_fault v items(4) have total: "total_amount s = iv_total_amount v"
    by (simp add: error_handler_fields after_items_fields)
  have by_catalog: "iv_total_amount v =
      (\<Sum>l\<leftarrow>filter line_passes_alone ls. catalog_line_total l)"
    by (simp add: v validate_order_items_refines total_passing_lines)
  have eq: "map item_total (validated_lines ls) =
      map (\<lambda>x. v_unit_price x * of_int (v_quantity x)) (validated_lines ls)"
    by (rule map_cong) (simp_all add: validated_items_unit_price)
  have by_items: "iv_total_amount v =
      (\<Sum>x\<leftarrow>validated_items v. v_unit_price x * of_int (v_quantity x))"
    by (simp add: v validate_order_items_refines eq)
  from some_valid have "filter line_passes_alone ls \<noteq> []"
    by (simp add: v validate_order_items_refines filter_passing_nonempty)
  then have "0 < (\<Sum>l\<leftarrow>filter line_passes_alone ls. catalog_line_total l)"
    by (rule sum_list_pos_nonempty) (simp add: catalog_line_total_positive)
  with by_catalog have pos: "0 < iv_total_amount v"
    by simp
  from items(4,5) total by_catalog by_items pos show ?thesis
    by (simp add: validate_order_Inr [OF run] error_handler_fields)
next
  case credit
  from credit(3,5) verdict invalid show ?thesis
    by (auto simp: items_ok_def error_handler_fields after_credit_fields after_items_fields)
next
  case approved
  from approved(3) obtain iv where "items_validation (after_credit ft oid cid ls) = Some iv"
    by (simp add: after_credit_fields after_items_fields)
  from process_order_node_set [OF this] approved(5)
  have "items_validation s = items_validation (after_credit ft oid cid ls)"
    by auto
  with approved(3) verdict invalid show ?thesis
    by (auto simp: items_ok_def after_credit_fields after_items_fields)
qed

theorem rejected_order_reports_partial_total_witness:
  "(\<exists>s tr v. app_invoke no_faults (initial_state ''ORD-009'' ''CUST001''
        [\<lparr>product_id = Some ''PROD002'', quantity = Some 1, unit_price = Some 25\<rparr>,
         \<lparr>product_id = Some ''PROD999'', quantity = Some 1, unit_price = Some 100\<rparr>]) = Inr (s, tr)
      \<and> items_validation s = Some (ItemsResult v) \<and> \<not> iv_valid v \<and> validated_items v \<noteq> []
      \<and> status s = Rejected \<and> 0 < total_amount s)
   \<and> result_status (validate_order no_faults ''ORD-009'' ''CUST001''
        [\<lparr>product_id = Some ''PROD002'', quantity = Some 1, unit_price = Some 25\<rparr>,
         \<lparr>product_id = Some ''PROD999'', quantity = Some 1, unit_price = Some 100\<rparr>]) = Rejected
   \<and> result_total_amount (validate_order no_faults ''ORD-009'' ''CUST001''
        [\<lparr>product_id = Some ''PROD002'', quantity = Some 1, unit_price = Some 25\<rparr>,
         \<lparr>product_id = Some ''PROD999'', quantity = Some 1, unit_price = Some 100\<rparr>]) = 25"
proof -
  let ?ls = "[\<lparr>product_id = Some ''PROD002'', quantity = Some 1, unit_price = Some (25::rat)\<rparr>,
         \<lparr>product_id = Some ''PROD999'', quantity = Some 1, unit_price = Some 100\<rparr>]"
  let ?s = "error_handler_node (after_items no_faults ''ORD-009'' ''CUST001'' ?ls)"
  let ?v = "validate_order_items ?ls"
  have cust: "customer_ok no_faults ''CUST001''"
    by (simp add: customer_ok_def no_faults_def validate_customer_exists_def MOCK_CUSTOMERS_def)
  have invalid: "\<not> iv_valid ?v"
    by (simp add: validate_order_items_def get_product_def MOCK_PRODUCTS_def Let_def)
  have some_valid: "validated_items ?v \<noteq> []"
    by (simp add: validate_order_items_def get_product_def MOCK_PRODUCTS_def Let_def)
  have total: "iv_total_amount ?v = 25"
    by (simp add: validate_order_items_def get_product_def MOCK_PRODUCTS_def Let_def)
  from cust invalid have run: "app_invoke no_faults (initial_state ''ORD-009'' ''CUST001'' ?ls) =
      Inr (?s, [ParseOrder, ValidateCustomer, ValidateItems, ErrorHandler])"
    by (simp add: app_invoke_run no_faults_def parse_ok_def items_ok_def)
  have verdict: "items_validation ?s = Some (ItemsResult ?v)"
    by (simp add: error_handler_fields after_items_fields no_faults_def)
  note t = rejected_order_reports_partial_total [OF run verdict invalid some_valid]
  from t total have "result_status (validate_order no_faults ''ORD-009'' ''CUST001'' ?ls) = Rejected
    \<and> result_total_amount (validate_order no_faults ''ORD-009'' ''CUST001'' ?ls) = 25"
    by simp
  moreover from t run verdict invalid some_valid
  have "\<exists>s tr v. app_invoke no_faults (initial_state ''ORD-009'' ''CUST001'' ?ls) = Inr (s, tr)
      \<and> items_validation s = Some (ItemsResult v) \<and> \<not> iv_valid v \<and> validated_items v \<noteq> []
      \<and> status s = Rejected \<and> 0 < total_amount s"
    by blast
  ultimately show ?thesis by simp
qed

text \<open>
  C10. Whenever \<open>validate_order\<close> returns status \<open>Rejected\<close>, in any fault
  environment, the error list of the result is non-empty, and the rejection message
  reports its length, which is at least 1.
\<close>
theorem rejected_result_has_errors:
  assumes "result_status (validate_order ft oid cid ls) = Rejected"
  shows "result_errors (validate_order ft oid cid ls) \<noteq> []
    \<and> 1 \<le> length (result_errors (validate_order ft oid cid ls))
    \<and> result_message (validate_order ft oid cid ls) =
        OrderRejected oid (length (result_errors (validate_order ft oid cid ls)))"
proof (cases "app_invoke ft (initial_state oid cid ls)")
  case (Inl e)
  with assms show ?thesis
    by (simp add: validate_order_def Let_def)
next
  case (Inr r)
  obtain s tr where "r = (s, tr)" by (cases r)
  with Inr have run: "app_invoke ft (initial_state oid cid ls) = Inr (s, tr)" by simp
  note res = validate_order_Inr [OF run]
  have "errors s \<noteq> [] \<and> message s = OrderRejected oid (length (errors s))"
    using run
  proof (cases rule: app_invoke_InrE)
    case parse
    then show ?thesis
      by (simp add: error_handler_fields after_parse_fields)
  next
    case customer
    then show ?thesis
      by (simp add: error_handler_fields after_customer_fields after_customer_errors)
  next
    case items
    then show ?thesis
      by (auto simp: error_handler_fields after_items_fields after_items_errors items_ok_def
          split: option.splits)
  next
    case credit
    then show ?thesis
      by (auto simp: error_handler_fields after_credit_fields after_credit_errors
          after_items_fields credit_ok_def items_ok_def split: option.splits)
  next
    case approved
    from approved(3) obtain iv where "items_validation (after_credit ft oid cid ls) = Some iv"
      by (simp add: after_credit_fields after_items_fields)
    from process_order_node_set [OF this] approved(5) have "status s = Approved"
      by auto
    with assms res show ?thesis by simp
  qed
  then show ?thesis
    by (cases "errors s") (simp_all add: res)
qed

theorem rejected_result_has_errors_witness:
  "result_status (validate_order (no_faults(ItemsToolInvoke := Some (Raised ''tool failure'')))
      ''ORD-010'' ''CUST001''
      [\<lparr>product_id = Some ''PROD001'', quantity = Some 1, unit_price = Some 1200\<rparr>]) = Rejected
   \<and> result_errors (validate_order (no_faults(ItemsToolInvoke := Some (Raised ''tool failure'')))
      ''ORD-010'' ''CUST001''
      [\<lparr>product_id = Some ''PROD001'', quantity = Some 1, unit_price = Some 1200\<rparr>]) \<noteq> []
   \<and> result_message (validate_order (no_faults(ItemsToolInvoke := Some (Raised ''tool failure'')))
      ''ORD-010'' ''CUST001''
      [\<lparr>product_id = Some ''PROD001'', quantity = Some 1, unit_price = Some 1200\<rparr>])
      = OrderRejected ''ORD-010'' 1"
proof -
  let ?ft = "no_faults(ItemsToolInvoke := Some (Raised ''tool failure''))"
  let ?ls = "[\<lparr>product_id = Some ''PROD001'', quantity = Some 1, unit_price = Some (1200::rat)\<rparr>]"
  have cust: "customer_ok ?ft ''CUST001''"
    by (simp add: customer_ok_def no_faults_def validate_customer_exists_def MOCK_CUSTOMERS_def)
  have "\<not> items_ok ?ft ?ls"
    by (simp add: items_ok_def)
  with cust have run: "app_invoke ?ft (initial_state ''ORD-010'' ''CUST001'' ?ls) =
      Inr (error_handler_node (after_items ?ft ''ORD-010'' ''CUST001'' ?ls),
           [ParseOrder, ValidateCustomer, ValidateItems, ErrorHandler])"
    by (simp add: app_invoke_run no_faults_def parse_ok_def)
  have rejected: "result_status (validate_order ?ft ''ORD-010'' ''CUST001'' ?ls) = Rejected"
    by (simp add: validate_order_Inr [OF run] error_handler_fields)
  have count: "length (result_errors (validate_order ?ft ''ORD-010'' ''CUST001'' ?ls)) = 1"
    using cust
    by (simp add: validate_order_Inr [OF run] error_handler_fields after_items_errors
        after_customer_errors after_parse_fields parse_ok_def)
  from rejected_result_has_errors [OF rejected] rejected count show ?thesis
    by simp
qed

end
